theory Spec2Isabelle
  imports Main "HOL-Library.Sublist"
begin

section \<open>Python string operations used by the build command\<close>

text \<open>
  Strings are byte strings (\<open>char list\<close>). The functions of this section model the
  builtins that \<open>execute\<close> calls on them: \<open>int\<close>, \<open>str\<close>, \<open>replace\<close>,
  \<open>split\<close>, \<open>startswith\<close>/\<open>endswith\<close> (HOL's \<open>prefix\<close> and \<open>suffix\<close>) and \<open>in\<close>.
\<close>

definition is_digit :: "char \<Rightarrow> bool" where
  "is_digit c = ((48 :: nat) \<le> of_char c \<and> of_char c \<le> (57 :: nat))"

definition digit_val :: "char \<Rightarrow> nat" where
  "digit_val c = of_char c - 48"

definition is_space :: "char \<Rightarrow> bool" where
  "is_space c = (c \<in> set [CHR '' '', CHR 0x09, CHR 0x0A, CHR 0x0B, CHR 0x0C, CHR 0x0D])"

definition strip :: "string \<Rightarrow> string" where
  "strip s = rev (dropWhile is_space (rev (dropWhile is_space s)))"

definition parse_digits :: "string \<Rightarrow> nat option" where
  "parse_digits ds =
     (if ds \<noteq> [] \<and> list_all is_digit ds
      then Some (foldl (\<lambda>a c. 10 * a + digit_val c) 0 ds) else None)"

text \<open>
  \<open>int(s)\<close> on ASCII text: blanks around the literal are dropped, one sign is allowed,
  and the rest must be a non-empty run of decimal digits; anything else raises
  ValueError, which is \<open>None\<close> here. (Digit-group underscores, accepted by later Python
  versions, are outside the model.)
\<close>

definition py_int :: "string \<Rightarrow> int option" where
  "py_int s =
     (case strip s of
        [] \<Rightarrow> None
      | c # ds \<Rightarrow>
          if c = CHR ''-'' then map_option (\<lambda>n. - int n) (parse_digits ds)
          else if c = CHR ''+'' then map_option int (parse_digits ds)
          else map_option int (parse_digits (c # ds)))"

fun str_nat :: "nat \<Rightarrow> string" where
  "str_nat n =
     (if n < 10 then [''0123456789'' ! n]
      else str_nat (n div 10) @ [''0123456789'' ! (n mod 10)])"

declare str_nat.simps [simp del]

text \<open>\<open>str(i)\<close> of an integer.\<close>

definition str_int :: "int \<Rightarrow> string" where
  "str_int i = (if i < 0 then CHR ''-'' # str_nat (nat (- i)) else str_nat (nat i))"

text \<open>\<open>s.replace('.', '')\<close>.\<close>

definition remove_dots :: "string \<Rightarrow> string" where
  "remove_dots s = filter (\<lambda>c. c \<noteq> CHR ''.'') s"

text \<open>
  \<open>s.split(sep)\<close> for a non-empty separator (the two call sites pass \<open>': '\<close> and
  \<open>' '\<close>): the pieces between the non-overlapping occurrences of \<open>sep\<close>, found from
  the left.
\<close>

fun split :: "string \<Rightarrow> string \<Rightarrow> string list" where
  "split sep [] = [[]]"
| "split sep (c # cs) =
     (if prefix sep (c # cs) then [] # split sep (drop (length sep - 1) cs)
      else (case split sep cs of [] \<Rightarrow> [[c]] | p # ps \<Rightarrow> (c # p) # ps))"

text \<open>\<open>sub in s\<close> for strings.\<close>

fun contains :: "string \<Rightarrow> string \<Rightarrow> bool" where
  "contains sub [] = (sub = [])"
| "contains sub (c # cs) = (prefix sub (c # cs) \<or> contains sub cs)"

section \<open>Shell-style patterns: \<open>fnmatch\<close> and \<open>glob\<close>\<close>

text \<open>
  \<open>glob\<close> hands the last path component to \<open>fnmatch.translate\<close>, which reads the
  pattern from the left: \<open>*\<close> is any text, \<open>?\<close> any one character, \<open>[seq]\<close> one
  character of a set (\<open>[!seq]\<close> one character outside it), anything else itself. A
  \<open>[\<close> with no closing \<open>]\<close> is a literal. The whole name must match.
\<close>

datatype class_item = One char | Span char char

datatype pat = Star | Quest | Lit char | Class bool "class_item list"

fun parse_items :: "string \<Rightarrow> class_item list" where
  "parse_items (a # m # b # rest) =
     (if m = CHR ''-'' then Span a b # parse_items rest
      else One a # parse_items (m # b # rest))"
| "parse_items (a # rest) = One a # parse_items rest"
| "parse_items [] = []"

text \<open>
  The index of the \<open>]\<close> that closes a set, in the text after its \<open>[\<close>: a leading
  \<open>!\<close> and a \<open>]\<close> right after it do not close the set.
\<close>

definition class_end :: "string \<Rightarrow> nat option" where
  "class_end cs =
     (let j0 = (if cs \<noteq> [] \<and> hd cs = CHR ''!'' then 1 else 0);
          j1 = (if j0 < length cs \<and> cs ! j0 = CHR '']'' then Suc j0 else j0);
          j = j1 + length (takeWhile (\<lambda>c. c \<noteq> CHR '']'') (drop j1 cs))
      in if j < length cs then Some j else None)"

definition class_of :: "string \<Rightarrow> pat" where
  "class_of stuff =
     (case stuff of
        [] \<Rightarrow> Class False []
      | c # rest \<Rightarrow>
          if c = CHR ''!'' then Class True (parse_items rest)
          else Class False (parse_items stuff))"

fun translate :: "string \<Rightarrow> pat list" where
  "translate [] = []"
| "translate (c # cs) =
     (if c = CHR ''*'' then Star # translate cs
      else if c = CHR ''?'' then Quest # translate cs
      else if c = CHR ''['' then
        (case class_end cs of
           None \<Rightarrow> Lit c # translate cs
         | Some j \<Rightarrow> class_of (take j cs) # translate (drop (Suc j) cs))
      else Lit c # translate cs)"

fun item_match :: "char \<Rightarrow> class_item \<Rightarrow> bool" where
  "item_match c (One a) = (c = a)"
| "item_match c (Span a b) =
     ((of_char a :: nat) \<le> of_char c \<and> (of_char c :: nat) \<le> of_char b)"

fun pmatch :: "pat list \<Rightarrow> string \<Rightarrow> bool" where
  "pmatch [] s = (s = [])"
| "pmatch (Star # ps) [] = pmatch ps []"
| "pmatch (Star # ps) (c # cs) = (pmatch ps (c # cs) \<or> pmatch (Star # ps) cs)"
| "pmatch (Quest # ps) (c # cs) = pmatch ps cs"
| "pmatch (Lit a # ps) (c # cs) = (a = c \<and> pmatch ps cs)"
| "pmatch (Class neg items # ps) (c # cs) =
     ((list_ex (item_match c) items \<noteq> neg) \<and> pmatch ps cs)"
| "pmatch (p # ps) [] = False"

definition fnmatch :: "string \<Rightarrow> string \<Rightarrow> bool" where
  "fnmatch name pattern = pmatch (translate pattern) name"

text \<open>
  \<open>glob1\<close>: the entries of a directory listing that match the pattern; entries that
  start with a dot are only offered to a pattern that starts with a dot.
\<close>

definition glob1 :: "string list \<Rightarrow> string \<Rightarrow> string list" where
  "glob1 names pattern =
     filter (\<lambda>name. fnmatch name pattern)
       (if take 1 pattern = ''.'' then names
        else filter (\<lambda>name. take 1 name \<noteq> ''.'') names)"

section \<open>Data of the build command\<close>

text \<open>
  The four version axes, in the order \<open>execute\<close> visits them, with the table
  \<open>all_versions\<close> of their known values and the table \<open>conda_version\<close> of their
  configuration keys.
\<close>

datatype lang = Python | Numpy | Perl | Rlang

definition langs :: "lang list" where
  "langs = [Python, Numpy, Perl, Rlang]"

fun lang_name :: "lang \<Rightarrow> string" where
  "lang_name Python = ''python''"
| "lang_name Numpy = ''numpy''"
| "lang_name Perl = ''perl''"
| "lang_name Rlang = ''R''"

fun all_versions :: "lang \<Rightarrow> int list option" where
  "all_versions Python = Some [26, 27, 33, 34]"
| "all_versions Numpy = Some [16, 17, 18, 19]"
| "all_versions Perl = None"
| "all_versions Rlang = None"

fun conda_version :: "lang \<Rightarrow> string" where
  "conda_version Python = ''CONDA_PY''"
| "conda_version Numpy = ''CONDA_NPY''"
| "conda_version Perl = ''CONDA_PERL''"
| "conda_version Rlang = ''CONDA_R''"

text \<open>
  The global \<open>config\<close> object, as far as \<open>execute\<close> writes it: the four version keys
  (\<open>None\<close> while the run has not set one) and the \<open>noarch\<close> flag.
\<close>

record config =
  CONDA_PY :: "int option"
  CONDA_NPY :: "int option"
  CONDA_PERL :: "int option"
  CONDA_R :: "int option"
  noarch :: bool

fun config_get :: "config \<Rightarrow> lang \<Rightarrow> int option" where
  "config_get c Python = CONDA_PY c"
| "config_get c Numpy = CONDA_NPY c"
| "config_get c Perl = CONDA_PERL c"
| "config_get c Rlang = CONDA_R c"

text \<open>\<open>setattr(config, conda_version[lang], version)\<close>.\<close>

fun config_set :: "lang \<Rightarrow> int \<Rightarrow> config \<Rightarrow> config" where
  "config_set Python v c = c\<lparr>CONDA_PY := Some v\<rparr>"
| "config_set Numpy v c = c\<lparr>CONDA_NPY := Some v\<rparr>"
| "config_set Perl v c = c\<lparr>CONDA_PERL := Some v\<rparr>"
| "config_set Rlang v c = c\<lparr>CONDA_R := Some v\<rparr>"

text \<open>
  The parsed command line. A version flag that was not given is the empty list (the
  code tests \<open>not versions\<close>, true of \<open>None\<close> and of \<open>[]\<close> alike). The flags that the
  code only passes on (\<open>quiet\<close>, \<open>channel\<close>, \<open>override_channels\<close>,
  \<open>include_recipe\<close>) travel inside the record handed to the collaborators.
\<close>

record args =
  python :: "string list"
  numpy :: "string list"
  perl :: "string list"
  R :: "string list"
  recipe :: "string list"
  check :: bool
  skip_existing :: bool
  output_flag :: bool
  test :: bool
  source :: bool
  build_only :: bool
  post :: bool
  notest :: bool
  binstar_upload :: "bool option"
  quiet :: bool
  include_recipe :: bool
  channel :: "string list"
  override_channels :: bool

fun getattr :: "args \<Rightarrow> lang \<Rightarrow> string list" where
  "getattr a Python = python a"
| "getattr a Numpy = numpy a"
| "getattr a Perl = perl a"
| "getattr a Rlang = R a"

fun setattr :: "lang \<Rightarrow> string list \<Rightarrow> args \<Rightarrow> args" where
  "setattr Python vs a = a\<lparr>python := vs\<rparr>"
| "setattr Numpy vs a = a\<lparr>numpy := vs\<rparr>"
| "setattr Perl vs a = a\<lparr>perl := vs\<rparr>"
| "setattr Rlang vs a = a\<lparr>R := vs\<rparr>"

text \<open>
  Exceptions are values. \<open>Other\<close> carries the class name and the message of any
  exception the code does not name.
\<close>

datatype exn =
    RuntimeError string
  | ValueError string
  | IndexError
  | SystemExit string
  | YamlParsingError string
  | Other string string

fun class_name :: "exn \<Rightarrow> string" where
  "class_name (RuntimeError m) = ''RuntimeError''"
| "class_name (ValueError m) = ''ValueError''"
| "class_name IndexError = ''IndexError''"
| "class_name (SystemExit m) = ''SystemExit''"
| "class_name (YamlParsingError m) = ''YamlParsingError''"
| "class_name (Other c m) = c"

text \<open>
  The trace lists, in order, what a run does to the outside: the calls to the
  collaborators that build, test, fetch, extract, remove and lock, and the notices it
  prints. An event is recorded when the call is made, whatever the call then returns.
\<close>

datatype event =
    Locked config
  | Unlocked
  | Index_updated
  | Mkdtemp string
  | Extracted string string
  | Ignored string
  | Skipped string
  | Recipe_path string
  | Output_path string
  | Tested string
  | Provided string
  | Built string
  | Missing_dependency string string
  | Removed string
  | Upload_offered string
  | Uploading string
  | Issue_message

text \<open>
  The state of a run: the two mutable globals (\<open>args\<close>, \<open>config\<close>), the outside
  world (file system, package cache, channels), the trace, and the locals of the
  scheduling loop (\<open>recipes\<close>, \<open>already_built\<close>, \<open>index\<close>).
\<close>

record 'w state =
  args :: args
  config :: config
  world :: 'w
  trace :: "event list"
  recipes :: "string list"
  already_built :: "string list"
  index :: "string list"

text \<open>
  The collaborators that are not part of this file (the build engine, the metadata
  parser, the source stager, the index, the lock, the file system) are parameters. Each
  reads the world; those with an effect return the new world, and each may raise.
  \<open>'m\<close> is the type of a parsed \<open>MetaData\<close> object.
\<close>

record ('w, 'm) env =
  PY3 :: bool
  on_win :: bool
  linux :: bool
  decode :: "string \<Rightarrow> exn + string"
  find_executable :: "'w \<Rightarrow> string \<Rightarrow> string option"
  delete_trash :: "'w \<Rightarrow> exn option \<times> 'w"
  update_index :: "config \<Rightarrow> 'w \<Rightarrow> exn option \<times> 'w"
  get_build_index :: "args \<Rightarrow> config \<Rightarrow> 'w \<Rightarrow> (exn + string list) \<times> 'w"
  lock :: "config \<Rightarrow> 'w \<Rightarrow> exn option \<times> 'w"
  unlock :: "config \<Rightarrow> 'w \<Rightarrow> 'w"
  isfile :: "'w \<Rightarrow> string \<Rightarrow> bool"
  isdir :: "'w \<Rightarrow> string \<Rightarrow> bool"
  exists :: "'w \<Rightarrow> string \<Rightarrow> bool"
  abspath :: "'w \<Rightarrow> string \<Rightarrow> string"
  listdir :: "'w \<Rightarrow> string list"
  glob_below :: "'w \<Rightarrow> string \<Rightarrow> string list"
  mkdtemp :: "'w \<Rightarrow> (exn + string) \<times> 'w"
  extractall :: "string \<Rightarrow> string \<Rightarrow> 'w \<Rightarrow> exn option \<times> 'w"
  rmtree :: "string \<Rightarrow> 'w \<Rightarrow> exn option \<times> 'w"
  MetaData :: "config \<Rightarrow> 'w \<Rightarrow> string \<Rightarrow> exn + 'm"
  noarch_python :: "'m \<Rightarrow> bool"
  path :: "'m \<Rightarrow> string"
  check_fields :: "'m \<Rightarrow> exn option"
  pkg_fn :: "config \<Rightarrow> 'm \<Rightarrow> string"
  dist :: "config \<Rightarrow> 'm \<Rightarrow> string"
  bldpkg_path :: "config \<Rightarrow> 'm \<Rightarrow> string"
  build_build :: "args \<Rightarrow> config \<Rightarrow> 'm \<Rightarrow> bool option \<Rightarrow> 'w \<Rightarrow> exn option \<times> 'w"
  build_test :: "args \<Rightarrow> config \<Rightarrow> 'm \<Rightarrow> 'w \<Rightarrow> exn option \<times> 'w"
  source_provide :: "config \<Rightarrow> 'm \<Rightarrow> 'w \<Rightarrow> exn option \<times> 'w"
  subprocess_call :: "string list \<Rightarrow> 'w \<Rightarrow> exn option \<times> 'w"

section \<open>The operations of \<open>main_build.py\<close>\<close>

definition emit :: "event \<Rightarrow> 'w state \<Rightarrow> 'w state" where
  "emit ev s = s\<lparr>trace := trace s @ [ev]\<rparr>"

text \<open>\<open>check_external\<close>: on Linux the command needs \<open>patchelf\<close>.\<close>

definition check_external :: "('w, 'm) env \<Rightarrow> 'w \<Rightarrow> exn option" where
  "check_external E w =
     (if linux E \<and> find_executable E w ''patchelf'' = None
      then Some (SystemExit ''Error: Did not find patchelf'')
      else None)"

text \<open>
  \<open>handle_binstar_upload\<close>: without an upload setting, or with a negative one, only
  the instructions are printed; otherwise the \<open>anaconda\<close> client is looked up and run.
\<close>

definition handle_binstar_upload ::
  "('w, 'm) env \<Rightarrow> string \<Rightarrow> 'w state \<Rightarrow> exn option \<times> 'w state" where
  "handle_binstar_upload E pkg_path s =
     (let upload = (case binstar_upload (args s) of None \<Rightarrow> False | Some b \<Rightarrow> b) in
      if \<not> upload then (None, emit (Upload_offered pkg_path) s)
      else
        (case find_executable E (world s) ''anaconda'' of
           None \<Rightarrow>
             (Some (SystemExit ''Error: cannot locate anaconda command''),
              emit (Upload_offered pkg_path) s)
         | Some binstar \<Rightarrow>
             (case subprocess_call E [binstar, ''upload'', pkg_path] (world s) of
                (None, w) \<Rightarrow> (None, (emit (Uploading pkg_path) s)\<lparr>world := w\<rparr>)
              | (Some e, w) \<Rightarrow>
                  (Some e,
                   (emit (Upload_offered pkg_path) (emit (Uploading pkg_path) s))
                     \<lparr>world := w\<rparr>))))"

subsection \<open>One pass of the scheduling loop\<close>

text \<open>
  A pass of the \<open>while recipes\<close> loop either goes on to the next pass (it ran to its
  end or met a \<open>continue\<close>) or raises, which ends the run.
\<close>

datatype 'w step = Continue "'w state" | Raise exn "'w state"

datatype 'w materialized = Done "'w step" | Recipe_dir string string bool "'w state"

definition is_archive :: "string \<Rightarrow> bool" where
  "is_archive arg =
     (suffix ''.tar'' arg \<or> suffix ''.tar.gz'' arg \<or> suffix ''.tgz'' arg
      \<or> suffix ''.tar.bz2'' arg)"

text \<open>
  The head of the pass: the argument is decoded (Python 2 only); an archive is extracted
  into a fresh temporary directory, which is flagged for cleanup; any other file is
  ignored; anything else is taken as a directory. The result carries the decoded
  argument, \<open>recipe_dir\<close> and \<open>need_cleanup\<close>.
\<close>

definition materialize :: "('w, 'm) env \<Rightarrow> string \<Rightarrow> 'w state \<Rightarrow> 'w materialized" where
  "materialize E arg0 s =
     (case (if PY3 E then Inr arg0 else decode E arg0) of
        Inl e \<Rightarrow> Done (Raise e s)
      | Inr arg \<Rightarrow>
          if isfile E (world s) arg then
            if is_archive arg then
              (case mkdtemp E (world s) of
                 (Inl e, w) \<Rightarrow> Done (Raise e (s\<lparr>world := w\<rparr>))
               | (Inr recipe_dir, w) \<Rightarrow>
                   (let s1 = emit (Extracted arg recipe_dir)
                               (emit (Mkdtemp recipe_dir) (s\<lparr>world := w\<rparr>)) in
                    case extractall E arg recipe_dir w of
                      (Some e, w') \<Rightarrow> Done (Raise e (s1\<lparr>world := w'\<rparr>))
                    | (None, w') \<Rightarrow> Recipe_dir arg recipe_dir True (s1\<lparr>world := w'\<rparr>)))
            else Done (Continue (emit (Ignored arg) s))
          else Recipe_dir arg (abspath E (world s) arg) False s)"

text \<open>
  The directory must exist; its metadata is parsed (a YAML error ends the process with
  status 1), \<open>config.noarch\<close> is set for a noarch recipe, and the fields are checked.
\<close>

definition load_metadata ::
  "('w, 'm) env \<Rightarrow> string \<Rightarrow> 'w state \<Rightarrow> 'w step + ('m \<times> 'w state)" where
  "load_metadata E recipe_dir s =
     (if \<not> isdir E (world s) recipe_dir
      then Inl (Raise (SystemExit (''Error: no such directory: '' @ recipe_dir)) s)
      else
        (case MetaData E (config s) (world s) recipe_dir of
           Inl (YamlParsingError msg) \<Rightarrow> Inl (Raise (SystemExit ''1'') s)
         | Inl e \<Rightarrow> Inl (Raise e s)
         | Inr m \<Rightarrow>
             (let s1 = (if noarch_python E m
                        then s\<lparr>config := (config s)\<lparr>noarch := True\<rparr>\<rparr> else s);
                  s2 = (if check (args s1) \<and> length (recipe (args s1)) > 1
                        then emit (Recipe_path (path E m)) s1 else s1)
              in case check_fields E m of
                   Some e \<Rightarrow> Inl (Raise e s2)
                 | None \<Rightarrow> Inr (m, s2))))"

text \<open>
  The name of the missing package, read from the text of the error: the piece after the
  first \<open>': '\<close>, cut at its first blank. A text with no \<open>': '\<close> raises IndexError.
\<close>

definition dep_pkg_of :: "string \<Rightarrow> exn + string" where
  "dep_pkg_of error_str =
     (case split '': '' error_str of
        x # dep_pkg # rest \<Rightarrow>
          Inr (if CHR '' '' \<in> set dep_pkg
               then (case split '' '' dep_pkg of [] \<Rightarrow> dep_pkg | tok # toks \<Rightarrow> tok)
               else dep_pkg)
      | _ \<Rightarrow> Inl IndexError)"

text \<open>
  \<open>glob\<close> of a pattern: a pattern with no directory part is matched against the
  listing of the working directory; one with a directory part is left to the
  collaborator \<open>glob_below\<close>.
\<close>

definition py_glob :: "('w, 'm) env \<Rightarrow> 'w \<Rightarrow> string \<Rightarrow> string list" where
  "py_glob E w pattern =
     (if CHR ''/'' \<in> set pattern then glob_below E w pattern
      else glob1 (listdir E w) pattern)"

definition recipe_glob_of :: "('w, 'm) env \<Rightarrow> 'w \<Rightarrow> string \<Rightarrow> string list" where
  "recipe_glob_of E w dep_pkg =
     py_glob E w (dep_pkg @ ''-[v0-9][0-9.]*'')
     @ (if exists E w dep_pkg then [dep_pkg] else [])"

definition appendleft :: "string \<Rightarrow> 'w state \<Rightarrow> 'w state" where
  "appendleft x s = s\<lparr>recipes := x # recipes s\<rparr>"

text \<open>
  The if-chain of the pass ends in one of three ways: a \<open>continue\<close> (\<open>Next\<close>), an
  exception (\<open>Failed\<close>), or it falls through to the tail of the pass (\<open>Completed\<close>, with
  the local \<open>binstar_upload\<close>).
\<close>

datatype 'w acted = Next "'w state" | Failed exn "'w state" | Completed bool "'w state"

text \<open>
  The handler of a RuntimeError raised by the build: an error about missing packages
  whose package has a recipe on disk puts the task back, then each recipe found in
  front of it; any other error is raised again.
\<close>

definition rediscover :: "('w, 'm) env \<Rightarrow> string \<Rightarrow> string \<Rightarrow> 'w state \<Rightarrow> 'w acted" where
  "rediscover E arg error_str s =
     (if prefix ''No packages found'' error_str \<or> prefix ''Could not find some'' error_str
      then
        (case dep_pkg_of error_str of
           Inl e \<Rightarrow> Failed e s
         | Inr dep_pkg \<Rightarrow>
             (let recipe_glob = recipe_glob_of E (world s) dep_pkg in
              if recipe_glob \<noteq> [] then
                Next
                  (foldl (\<lambda>s' recipe_dir.
                            appendleft recipe_dir
                              (emit (Missing_dependency dep_pkg recipe_dir) s'))
                     (appendleft arg s) recipe_glob)
              else Failed (RuntimeError error_str) s))
      else Failed (RuntimeError error_str) s)"

definition run_test :: "('w, 'm) env \<Rightarrow> 'm \<Rightarrow> 'w state \<Rightarrow> exn option \<times> 'w state" where
  "run_test E m s =
     (case build_test E (args s) (config s) m (world s) of
        (r, w) \<Rightarrow> (r, (emit (Tested (pkg_fn E (config s) m)) s)\<lparr>world := w\<rparr>))"

text \<open>
  The two build sub-modes fix the \<open>post\<close> argument of the build and switch the test and
  the upload off, in \<open>args\<close> itself.
\<close>

definition post_arg :: "args \<Rightarrow> bool option" where
  "post_arg a = (if build_only a then Some False else if post a then Some True else None)"

definition build_args :: "args \<Rightarrow> args" where
  "build_args a =
     (if build_only a \<or> post a then a\<lparr>notest := True, binstar_upload := Some False\<rparr>
      else a)"

definition full_build :: "('w, 'm) env \<Rightarrow> string \<Rightarrow> 'm \<Rightarrow> 'w state \<Rightarrow> 'w acted" where
  "full_build E arg m s =
     (let s1 = emit (Built (pkg_fn E (config s) m)) (s\<lparr>args := build_args (args s)\<rparr>)
      in case build_build E (args s1) (config s1) m (post_arg (args s)) (world s1) of
           (Some (RuntimeError error_str), w) \<Rightarrow>
             rediscover E arg error_str (s1\<lparr>world := w\<rparr>)
         | (Some e, w) \<Rightarrow> Failed e (s1\<lparr>world := w\<rparr>)
         | (None, w) \<Rightarrow>
             (case (if \<not> notest (args s1) then run_test E m (s1\<lparr>world := w\<rparr>)
                    else (None, s1\<lparr>world := w\<rparr>)) of
                (Some e, s2) \<Rightarrow> Failed e s2
              | (None, s2) \<Rightarrow> Completed True s2))"

text \<open>
  The action on a resolved recipe, in the order of the code: check only, skip an
  existing package, print the output path, test only, fetch the source only, build.
\<close>

definition action :: "('w, 'm) env \<Rightarrow> string \<Rightarrow> 'm \<Rightarrow> 'w state \<Rightarrow> 'w acted" where
  "action E arg m s =
     (if check (args s) then Next s
      else if skip_existing (args s)
              \<and> (pkg_fn E (config s) m \<in> set (index s)
                  \<or> pkg_fn E (config s) m \<in> set (already_built s))
        then Next (emit (Skipped (dist E (config s) m)) s)
      else if output_flag (args s)
        then Next (emit (Output_path (bldpkg_path E (config s) m)) s)
      else if test (args s) then
        (case run_test E m s of
           (Some e, s1) \<Rightarrow> Failed e s1
         | (None, s1) \<Rightarrow> Completed False s1)
      else if source (args s) then
        (case source_provide E (config s) m (world s) of
           (Some e, w) \<Rightarrow> Failed e ((emit (Provided (path E m)) s)\<lparr>world := w\<rparr>)
         | (None, w) \<Rightarrow> Completed False ((emit (Provided (path E m)) s)\<lparr>world := w\<rparr>))
      else full_build E arg m s)"

text \<open>
  The tail of the pass: the temporary directory is removed, the upload is offered after
  a full build, and the package is appended to \<open>already_built\<close>.
\<close>

definition finish ::
  "('w, 'm) env \<Rightarrow> string \<Rightarrow> bool \<Rightarrow> bool \<Rightarrow> 'm \<Rightarrow> 'w state \<Rightarrow> 'w step" where
  "finish E recipe_dir need_cleanup upload m s =
     (case (if need_cleanup
            then (case rmtree E recipe_dir (world s) of
                    (r, w) \<Rightarrow> (r, (emit (Removed recipe_dir) s)\<lparr>world := w\<rparr>))
            else (None, s)) of
        (Some e, s1) \<Rightarrow> Raise e s1
      | (None, s1) \<Rightarrow>
          (case (if upload
                 then handle_binstar_upload E (bldpkg_path E (config s1) m) s1
                 else (None, s1)) of
             (Some e, s2) \<Rightarrow> Raise e s2
           | (None, s2) \<Rightarrow>
               Continue (s2\<lparr>already_built :=
                              already_built s2 @ [pkg_fn E (config s2) m]\<rparr>)))"

definition loop_body :: "('w, 'm) env \<Rightarrow> string \<Rightarrow> 'w state \<Rightarrow> 'w step" where
  "loop_body E arg0 s =
     (case materialize E arg0 s of
        Done r \<Rightarrow> r
      | Recipe_dir arg recipe_dir need_cleanup s1 \<Rightarrow>
          (case load_metadata E recipe_dir s1 of
             Inl r \<Rightarrow> r
           | Inr (m, s2) \<Rightarrow>
               (case action E arg m s2 of
                  Next s3 \<Rightarrow> Continue s3
                | Failed e s3 \<Rightarrow> Raise e s3
                | Completed upload s3 \<Rightarrow> finish E recipe_dir need_cleanup upload m s3)))"

text \<open>The state a pass ends in.\<close>

fun state_of :: "'w step \<Rightarrow> 'w state" where
  "state_of (Continue s) = s"
| "state_of (Raise e s) = s"

subsection \<open>The scheduling loop\<close>

text \<open>
  The loop may run forever, so it takes fuel: the number of passes it may make. With the
  queue empty it returns; out of fuel with tasks left, the result is \<open>Out_of_fuel\<close> and
  the state reached so far.
\<close>

datatype outcome = Returned | Raised exn | Out_of_fuel

fun run_loop :: "('w, 'm) env \<Rightarrow> nat \<Rightarrow> 'w state \<Rightarrow> outcome \<times> 'w state" where
  "run_loop E 0 s = (if recipes s = [] then Returned else Out_of_fuel, s)"
| "run_loop E (Suc n) s =
     (case recipes s of
        [] \<Rightarrow> (Returned, s)
      | arg # rest \<Rightarrow>
          (case loop_body E arg (s\<lparr>recipes := rest\<rparr>) of
             Raise e s' \<Rightarrow> (Raised e, s')
           | Continue s' \<Rightarrow> run_loop E n s'))"

text \<open>
  The part of \<open>execute\<close> after the version axes: the index is read when existing
  packages are skipped, \<open>already_built\<close> starts empty, and the loop runs over
  \<open>args.recipe\<close> under the lock of the build root, which is released when the loop is
  left.
\<close>

definition read_index :: "('w, 'm) env \<Rightarrow> 'w state \<Rightarrow> exn option \<times> 'w state" where
  "read_index E s =
     (if skip_existing (args s) then
        (case update_index E (config s) (world s) of
           (Some e, w) \<Rightarrow> (Some e, (emit Index_updated s)\<lparr>world := w\<rparr>)
         | (None, w) \<Rightarrow>
             (case get_build_index E (args s) (config s) w of
                (Inl e, w') \<Rightarrow> (Some e, (emit Index_updated s)\<lparr>world := w'\<rparr>)
              | (Inr idx, w') \<Rightarrow>
                  (None, (emit Index_updated s)\<lparr>world := w', index := idx\<rparr>)))
      else (None, s))"

definition schedule :: "('w, 'm) env \<Rightarrow> nat \<Rightarrow> 'w state \<Rightarrow> outcome \<times> 'w state" where
  "schedule E n s =
     (case read_index E s of
        (Some e, s1) \<Rightarrow> (Raised e, s1)
      | (None, s1) \<Rightarrow>
          (let s2 = emit (Locked (config s1)) (s1\<lparr>already_built := []\<rparr>) in
           case lock E (config s2) (world s2) of
             (Some e, w) \<Rightarrow> (Raised e, s2\<lparr>world := w\<rparr>)
           | (None, w) \<Rightarrow>
               (case run_loop E n (s2\<lparr>world := w, recipes := recipe (args s2)\<rparr>) of
                  (Out_of_fuel, s3) \<Rightarrow> (Out_of_fuel, s3)
                | (r, s3) \<Rightarrow>
                    (r, (emit Unlocked s3)\<lparr>world := unlock E (config s3) (world s3)\<rparr>))))"

subsection \<open>The version axes and \<open>execute\<close>\<close>

text \<open>
  \<open>'all'\<close> stands for the known versions of an axis that has some; on the other axes
  \<open>parser.error\<close> ends the process. The known versions are integers, which the loop
  over them turns into text with \<open>str\<close>.
\<close>

definition expand_all :: "lang \<Rightarrow> string list \<Rightarrow> exn + string list" where
  "expand_all lang versions =
     (if versions = [''all''] then
        (case all_versions lang of
           None \<Rightarrow> Inl (SystemExit (''all is not supported for --'' @ lang_name lang))
         | Some vs \<Rightarrow>
             if vs \<noteq> [] then Inr (map str_int vs)
             else Inl (SystemExit (''all is not supported for --'' @ lang_name lang)))
      else Inr versions)"

definition width_message :: "lang \<Rightarrow> int \<Rightarrow> string" where
  "width_message lang version =
     (case all_versions lang of
        Some (v # vs) \<Rightarrow>
          conda_version lang @ '' must be major.minor, like ''
          @ str_int (last (v # vs) div 10) @ ''.'' @ str_int (last (v # vs) mod 10)
          @ '', not '' @ str_int version
      | _ \<Rightarrow> conda_version lang @ '' must be major.minor, not '' @ str_int version)"

text \<open>
  The loop over several versions of one axis: the axis is set to one version, the whole
  of \<open>execute\<close> runs again (\<open>exec\<close>), and the axis is set back to the list.
\<close>

fun for_ver ::
  "('w state \<Rightarrow> outcome \<times> 'w state) \<Rightarrow> lang \<Rightarrow> string list \<Rightarrow> string list
   \<Rightarrow> 'w state \<Rightarrow> outcome \<times> 'w state" where
  "for_ver exec lang versions [] s = (Returned, s)"
| "for_ver exec lang versions (ver # rest) s =
     (case exec (s\<lparr>args := setattr lang [ver] (args s)\<rparr>) of
        (Returned, s') \<Rightarrow>
          for_ver exec lang versions rest (s'\<lparr>args := setattr lang versions (args s')\<rparr>)
      | (r, s') \<Rightarrow> (r, s'))"

text \<open>
  The loop over the axes. An axis with several versions runs \<open>execute\<close> once for each
  and returns; an axis with one version writes it to \<open>config\<close>, and Python and NumPy
  want it two characters wide. After the last axis comes the scheduling.
\<close>

fun for_lang ::
  "('w, 'm) env \<Rightarrow> ('w state \<Rightarrow> outcome \<times> 'w state) \<Rightarrow> nat \<Rightarrow> lang list
   \<Rightarrow> 'w state \<Rightarrow> outcome \<times> 'w state" where
  "for_lang E exec n [] s = schedule E n s"
| "for_lang E exec n (lang # rest) s =
     (case getattr (args s) lang of
        [] \<Rightarrow> for_lang E exec n rest s
      | v0 # vs0 \<Rightarrow>
          (case expand_all lang (v0 # vs0) of
             Inl e \<Rightarrow> (Raised e, s)
           | Inr versions \<Rightarrow>
               if length versions > 1 then for_ver exec lang versions versions s
               else
                 (case py_int (remove_dots (hd versions)) of
                    None \<Rightarrow> (Raised (ValueError (remove_dots (hd versions))), s)
                  | Some version \<Rightarrow>
                      (let s1 = s\<lparr>config := config_set lang version (config s)\<rparr> in
                       if length (str_int version) \<noteq> 2 \<and> lang \<in> set [Python, Numpy]
                       then (Raised (RuntimeError (width_message lang version)), s1)
                       else for_lang E exec n rest s1))))"

text \<open>The first lines of \<open>execute\<close>: the external tools, and the trash on Windows.\<close>

definition startup :: "('w, 'm) env \<Rightarrow> 'w state \<Rightarrow> exn option \<times> 'w state" where
  "startup E s =
     (case check_external E (world s) of
        Some e \<Rightarrow> (Some e, s)
      | None \<Rightarrow>
          if on_win E
          then (case delete_trash E (world s) of (r, w) \<Rightarrow> (r, s\<lparr>world := w\<rparr>))
          else (None, s))"

definition execute_body ::
  "('w, 'm) env \<Rightarrow> ('w state \<Rightarrow> outcome \<times> 'w state) \<Rightarrow> nat \<Rightarrow> 'w state
   \<Rightarrow> outcome \<times> 'w state" where
  "execute_body E exec n s =
     (case startup E s of
        (Some e, s1) \<Rightarrow> (Raised e, s1)
      | (None, s1) \<Rightarrow> for_lang E exec n langs s1)"

text \<open>
  \<open>execute\<close> calls itself, and its loop may not end: the fuel bounds the depth of the
  calls and the passes of each loop.
\<close>

primrec execute :: "('w, 'm) env \<Rightarrow> nat \<Rightarrow> 'w state \<Rightarrow> outcome \<times> 'w state" where
  "execute E 0 s = (Out_of_fuel, s)"
| "execute E (Suc n) s = execute_body E (execute E n) n s"

text \<open>
  \<open>args_func\<close>: a RuntimeError becomes the exit message \<open>Error: ...\<close> (unless it is
  the recursion limit); \<open>sys.exit\<close> passes; any other exception is raised again after
  the request to report it.
\<close>

definition print_issue_message :: "exn \<Rightarrow> 'w state \<Rightarrow> 'w state" where
  "print_issue_message e s =
     (if class_name e \<notin> set [''ScannerError'', ''ParserError'']
      then emit Issue_message s else s)"

definition args_func :: "('w, 'm) env \<Rightarrow> nat \<Rightarrow> 'w state \<Rightarrow> outcome \<times> 'w state" where
  "args_func E n s =
     (case execute E n s of
        (Raised (RuntimeError msg), s') \<Rightarrow>
          if contains ''maximum recursion depth exceeded'' msg
          then (Raised (RuntimeError msg), print_issue_message (RuntimeError msg) s')
          else (Raised (SystemExit (''Error: '' @ msg)), s')
      | (Raised (SystemExit msg), s') \<Rightarrow> (Raised (SystemExit msg), s')
      | (Raised e, s') \<Rightarrow> (Raised e, print_issue_message e s')
      | (r, s') \<Rightarrow> (r, s'))"

section \<open>Notions used in the statements\<close>

text \<open>
  The conditions of the if-chain under which a resolved recipe reaches the full build:
  no check-only run, no skip of an existing package, and none of the output, test and
  source modes.
\<close>

definition builds :: "('w, 'm) env \<Rightarrow> 'm \<Rightarrow> 'w state \<Rightarrow> bool" where
  "builds E m s =
     (\<not> check (args s)
      \<and> \<not> (skip_existing (args s)
             \<and> (pkg_fn E (config s) m \<in> set (index s)
                 \<or> pkg_fn E (config s) m \<in> set (already_built s)))
      \<and> \<not> output_flag (args s) \<and> \<not> test (args s) \<and> \<not> source (args s))"

text \<open>The loop of the handler that puts the recipes found at the front of the queue.\<close>

definition requeue :: "string \<Rightarrow> string list \<Rightarrow> 'w state \<Rightarrow> 'w state" where
  "requeue dep_pkg recipe_glob s =
     foldl (\<lambda>s' recipe_dir.
              appendleft recipe_dir (emit (Missing_dependency dep_pkg recipe_dir) s'))
       s recipe_glob"

section \<open>Reading the trace\<close>

text \<open>The events a run adds to the trace between two of its states.\<close>

definition new_events :: "'w state \<Rightarrow> 'w state \<Rightarrow> event list" where
  "new_events s s' = drop (length (trace s)) (trace s')"

text \<open>From \<open>s\<close> to \<open>s'\<close> the trace only grows, and by events that satisfy \<open>P\<close>.\<close>

definition adds :: "(event \<Rightarrow> bool) \<Rightarrow> 'w state \<Rightarrow> 'w state \<Rightarrow> bool" where
  "adds P s s' = (prefix (trace s) (trace s') \<and> list_all P (new_events s s'))"


fun is_Locked :: "event \<Rightarrow> bool" where
  "is_Locked (Locked c) = True"
| "is_Locked ev = False"

text \<open>The values of one axis under which the runs of a trace were scheduled.\<close>

fun locked_values :: "lang \<Rightarrow> event list \<Rightarrow> int option list" where
  "locked_values lang [] = []"
| "locked_values lang (Locked c # evs) = config_get c lang # locked_values lang evs"
| "locked_values lang (ev # evs) = locked_values lang evs"

section \<open>A small build world for the examples\<close>

text \<open>
  A world that can be run: the working directory holds the recipe directories \<open>A\<close>,
  \<open>B\<close>, \<open>C\<close> and \<open>D-1.0\<close>; a name that ends like an archive or in \<open>.txt\<close> is a file;
  the package of a recipe is named after its directory (after its archive, for an
  extracted one). \<open>needs\<close> lists, for a package, the package its build misses until
  that one is built; the build of a package in \<open>broken\<close> fails for another reason.
\<close>

record toy_world =
  built :: "string list"
  temp :: "string option"

definition toy :: "(string \<times> string) list \<Rightarrow> string list \<Rightarrow> (toy_world, string) env" where
  "toy needs broken =
     \<lparr>PY3 = True, on_win = False, linux = True,
      decode = Inr,
      find_executable = (\<lambda>w name. if name = ''patchelf'' then Some ''/usr/bin/patchelf'' else None),
      delete_trash = (\<lambda>w. (None, w)),
      update_index = (\<lambda>c w. (None, w)),
      get_build_index = (\<lambda>a c w. (Inr [], w)),
      lock = (\<lambda>c w. (None, w)),
      unlock = (\<lambda>c w. w),
      isfile = (\<lambda>w p. is_archive p \<or> suffix ''.txt'' p),
      isdir = (\<lambda>w p. \<not> is_archive p \<and> \<not> suffix ''.txt'' p),
      exists = (\<lambda>w p. p \<in> set [''A'', ''B'', ''C'']),
      abspath = (\<lambda>w p. p),
      listdir = (\<lambda>w. [''A'', ''B'', ''C'', ''D-1.0'']),
      glob_below = (\<lambda>w p. []),
      mkdtemp = (\<lambda>w. (Inr ''/tmp/t'', w)),
      extractall = (\<lambda>a d w. (None, w\<lparr>temp := Some (takeWhile (\<lambda>c. c \<noteq> CHR ''.'') a)\<rparr>)),
      rmtree = (\<lambda>d w. (None, w\<lparr>temp := None\<rparr>)),
      MetaData = (\<lambda>c w d.
         if d = ''/tmp/t''
         then (case temp w of Some p \<Rightarrow> Inr p | None \<Rightarrow> Inl (Other ''IOError'' d))
         else Inr d),
      noarch_python = (\<lambda>m. False),
      path = (\<lambda>m. m),
      check_fields = (\<lambda>m. None),
      pkg_fn = (\<lambda>c m. m @ ''.tar.bz2''),
      dist = (\<lambda>c m. m),
      bldpkg_path = (\<lambda>c m. ''/bld/'' @ m @ ''.tar.bz2''),
      build_build = (\<lambda>a c m p w.
         if m \<in> set broken then (Some (Other ''CalledProcessError'' m), w)
         else
           (case map_of needs m of
              None \<Rightarrow> (None, w\<lparr>built := built w @ [m]\<rparr>)
            | Some d \<Rightarrow>
                if d \<in> set (built w) then (None, w\<lparr>built := built w @ [m]\<rparr>)
                else (Some (RuntimeError
                        (''No packages found in current linux-64 channels matching: '' @ d)),
                      w))),
      build_test = (\<lambda>a c m w. (None, w)),
      source_provide = (\<lambda>c m w. (None, w)),
      subprocess_call = (\<lambda>cmd w. (None, w))\<rparr>"

definition toy_args :: "string list \<Rightarrow> args" where
  "toy_args rs =
     \<lparr>python = [], numpy = [], perl = [], R = [], recipe = rs, check = False,
      skip_existing = False, output_flag = False, test = False, source = False,
      build_only = False, post = False, notest = False, binstar_upload = Some False,
      quiet = False, include_recipe = True, channel = [], override_channels = False\<rparr>"

definition toy_config :: config where
  "toy_config =
     \<lparr>CONDA_PY = None, CONDA_NPY = None, CONDA_PERL = None, CONDA_R = None,
      noarch = False\<rparr>"

text \<open>The state in which a command starts, and the state in which its loop starts.\<close>

definition toy_state :: "args \<Rightarrow> toy_world state" where
  "toy_state a =
     \<lparr>args = a, config = toy_config, world = \<lparr>built = [], temp = None\<rparr>, trace = [],
      recipes = [], already_built = [], index = []\<rparr>"

definition toy_loop :: "args \<Rightarrow> toy_world state" where
  "toy_loop a = (toy_state a)\<lparr>recipes := recipe a\<rparr>"

lemmas toy_defs =
  toy_def toy_args_def toy_config_def toy_state_def toy_loop_def is_archive_def
  suffix_to_prefix

lemmas pass_defs =
  loop_body_def materialize_def load_metadata_def action_def full_build_def
  rediscover_def dep_pkg_of_def recipe_glob_of_def py_glob_def glob1_def fnmatch_def
  class_end_def class_of_def appendleft_def finish_def handle_binstar_upload_def
  run_test_def is_archive_def emit_def build_args_def post_arg_def

lemmas run_defs =
  execute_body_def startup_def check_external_def langs_def schedule_def read_index_def
  expand_all_def width_message_def



text \<open>The events of a pass that are neither a build nor a removal.\<close>

fun harmless :: "event \<Rightarrow> bool" where
  "harmless (Locked c) = False"
| "harmless Unlocked = False"
| "harmless Index_updated = False"
| "harmless (Built p) = False"
| "harmless (Removed d) = False"
| "harmless Issue_message = False"
| "harmless ev = True"

text \<open>The state the if-chain ends in.\<close>

fun acted_state :: "'w acted \<Rightarrow> 'w state" where
  "acted_state (Next s) = s"
| "acted_state (Failed e s) = s"
| "acted_state (Completed u s) = s"

text \<open>
  What a pass leaves alone: of \<open>args\<close> everything but \<open>notest\<close> and
  \<open>binstar_upload\<close>, of \<open>config\<close> everything but \<open>noarch\<close>, the index, and what
  \<open>already_built\<close> held.
\<close>

definition request :: "args \<Rightarrow> args" where
  "request a = a\<lparr>notest := False, binstar_upload := None\<rparr>"

definition axes :: "config \<Rightarrow> config" where
  "axes c = c\<lparr>noarch := False\<rparr>"

definition carried :: "'w state \<Rightarrow> 'w state \<Rightarrow> bool" where
  "carried s s' =
     (request (args s') = request (args s)
      \<and> axes (config s') = axes (config s)
      \<and> index s' = index s
      \<and> prefix (already_built s) (already_built s'))"

fun is_Built :: "event \<Rightarrow> bool" where
  "is_Built (Built p) = True"
| "is_Built ev = False"

text \<open>
  What the pattern of the search says of a name, for a package name with no pattern
  character in it: the package name, a dash, one character that is \<open>v\<close> or a digit,
  one character that is a digit or a dot, and then anything.
\<close>

definition versioned :: "string \<Rightarrow> string \<Rightarrow> bool" where
  "versioned dep_pkg name =
     (prefix (dep_pkg @ ''-'') name
      \<and> (case drop (length dep_pkg + 1) name of
            c1 # c2 # rest \<Rightarrow>
              (c1 = CHR ''v'' \<or> is_digit c1) \<and> (is_digit c2 \<or> c2 = CHR ''.'')
          | _ \<Rightarrow> False))"

text \<open>
  The pattern in the words of the specification, \<open><dependency-name>-v?[0-9][0-9.]*\<close>,
  read as a regular expression over the whole name: the package name, a dash, an
  optional \<open>v\<close>, a digit, and then digits and dots only. It is here to be compared
  with \<open>versioned\<close>.
\<close>

definition spec_pattern :: "string \<Rightarrow> string \<Rightarrow> bool" where
  "spec_pattern dep_pkg name =
     (prefix (dep_pkg @ ''-'') name
      \<and> (case (let r = drop (length dep_pkg + 1) name
               in if take 1 r = ''v'' then drop 1 r else r) of
            [] \<Rightarrow> False
          | c # rest \<Rightarrow> is_digit c \<and> list_all (\<lambda>x. is_digit x \<or> x = CHR ''.'') rest))"

text \<open>A package name with no pattern character and no path separator.\<close>

definition plain :: "string \<Rightarrow> bool" where
  "plain dep_pkg = list_all (\<lambda>c. c \<notin> set ''*?[/'') dep_pkg"

text \<open>The small world with another working directory.\<close>

definition shelf :: "string list \<Rightarrow> (toy_world, string) env" where
  "shelf names = (toy [] [])\<lparr>listdir := (\<lambda>w. names), exists := (\<lambda>w p. p \<in> set names)\<rparr>"

text \<open>
  An axis whose one value the loop over the axes refuses: \<open>'all'\<close> on an axis with no
  known versions, a value that \<open>int\<close> does not read, or, for Python and NumPy, a value
  whose integer \<open>str\<close> does not write in two characters.
\<close>

definition rejected :: "lang \<Rightarrow> string list \<Rightarrow> bool" where
  "rejected lang versions =
     (case versions of
        [v] \<Rightarrow>
          if v = ''all'' then all_versions lang = None
          else (case py_int (remove_dots v) of
                  None \<Rightarrow> True
                | Some version \<Rightarrow>
                    length (str_int version) \<noteq> 2 \<and> lang \<in> set [Python, Numpy])
      | _ \<Rightarrow> False)"

text \<open>
  How many nested calls of \<open>execute\<close> an axis asks for before it holds one plain
  value, and the sum over the axes.
\<close>

definition need :: "lang \<Rightarrow> string list \<Rightarrow> nat" where
  "need lang versions =
     (if length versions > 1 then 2
      else if versions = [''all''] \<and> all_versions lang \<noteq> None then 1 else 0)"

definition weight :: "args \<Rightarrow> nat" where
  "weight a = sum_list (map (\<lambda>lang. need lang (getattr a lang)) langs)"

text \<open>The run ends before it schedules anything: nothing returned, nothing added to the trace, and an exception once the fuel covers the nesting.\<close>

definition aborts :: "nat \<Rightarrow> nat \<Rightarrow> 'w state \<Rightarrow> outcome \<times> 'w state \<Rightarrow> bool" where
  "aborts k w s r =
     (fst r \<noteq> Returned \<and> trace (snd r) = trace s \<and> (w < k \<longrightarrow> (\<exists>e. fst r = Raised e)))"

text \<open>The axes the loop visits after a given one.\<close>

definition after :: "lang \<Rightarrow> lang list" where
  "after lang = tl (dropWhile (\<lambda>l. l \<noteq> lang) langs)"

section \<open>Basic facts\<close>

lemma split_nonempty: "split sep s \<noteq> []"
  by (cases s) (auto split: list.splits)

lemma requeue_fields:
  "recipes (requeue d cs s) = rev cs @ recipes s"
  "already_built (requeue d cs s) = already_built s"
  "index (requeue d cs s) = index s"
  "args (requeue d cs s) = args s"
  "config (requeue d cs s) = config s"
  "world (requeue d cs s) = world s"
  "trace (requeue d cs s) = trace s @ map (Missing_dependency d) cs"
  unfolding requeue_def
  by (induction cs arbitrary: s; simp add: appendleft_def emit_def)+

lemma materialize_frame:
  assumes "materialize E a s = Recipe_dir arg d c s1"
  shows "recipes s1 = recipes s" "already_built s1 = already_built s" "index s1 = index s"
    "args s1 = args s" "config s1 = config s"
  using assms
  by (auto simp: materialize_def emit_def Let_def
      split: sum.splits if_splits prod.splits option.splits)

lemma load_metadata_frame:
  assumes "load_metadata E d s = Inr (m, s1)"
  shows "recipes s1 = recipes s" "already_built s1 = already_built s" "index s1 = index s"
    "args s1 = args s" "world s1 = world s"
  using assms
  by (auto simp: load_metadata_def emit_def Let_def
      split: sum.splits if_splits prod.splits option.splits exn.splits)

lemma rediscover_found:
  assumes "prefix ''No packages found'' error_str \<or> prefix ''Could not find some'' error_str"
    and "dep_pkg_of error_str = Inr dep_pkg"
    and "recipe_glob_of E (world s) dep_pkg \<noteq> []"
  shows "rediscover E arg error_str s
         = Next (requeue dep_pkg (recipe_glob_of E (world s) dep_pkg) (appendleft arg s))"
  using assms by (simp add: rediscover_def requeue_def Let_def)


lemma action_builds: "builds E m s \<Longrightarrow> action E arg m s = full_build E arg m s"
  by (auto simp: builds_def action_def)

lemma full_build_raises:
  assumes "build_build E (build_args (args s)) (config s) m (post_arg (args s)) (world s)
           = (Some (RuntimeError error_str), w)"
  shows "full_build E arg m s
         = rediscover E arg error_str
             ((emit (Built (pkg_fn E (config s) m)) (s\<lparr>args := build_args (args s)\<rparr>))
                \<lparr>world := w\<rparr>)"
  using assms by (simp add: full_build_def Let_def emit_def)

section \<open>The queue after a missing dependency\<close>

text \<open>
  C1. The queue holds \<open>a0\<close> and then \<open>rest\<close> (the claim's \<open>[A, B]\<close>). The task
  \<open>a0\<close> resolves to a recipe and reaches the build; the build raises a RuntimeError
  about missing packages that names \<open>dep_pkg\<close>, for which the search finds the
  recipes \<open>cs\<close>, at least one. Then the pass goes on to the next with a queue built by
  putting the task back at the front and then each recipe found, in the order found,
  at the front: every recipe found stands before the task, and \<open>rest\<close> follows the
  task unchanged. For one recipe \<open>C\<close> the queue is \<open>[C, A, B]\<close>. Nothing is added to
  \<open>already_built\<close>.
\<close>

theorem requeue_dependency_first:
  assumes q: "recipes s = a0 # rest"
    and mat: "materialize E a0 (s\<lparr>recipes := rest\<rparr>)
              = Recipe_dir arg recipe_dir need_cleanup s1"
    and meta: "load_metadata E recipe_dir s1 = Inr (m, s2)"
    and mode: "builds E m s2"
    and fails: "build_build E (build_args (args s2)) (config s2) m (post_arg (args s2))
                  (world s2) = (Some (RuntimeError error_str), w)"
    and missing: "prefix ''No packages found'' error_str
                  \<or> prefix ''Could not find some'' error_str"
    and dep: "dep_pkg_of error_str = Inr dep_pkg"
    and found: "recipe_glob_of E w dep_pkg = cs" "cs \<noteq> []"
  shows "\<exists>s'. run_loop E (Suc n) s = run_loop E n s'
            \<and> recipes s' = foldl (\<lambda>q c. c # q) (arg # rest) cs
            \<and> recipes s' = rev cs @ arg # rest
            \<and> already_built s' = already_built s"
proof -
  let ?s3 = "(emit (Built (pkg_fn E (config s2) m)) (s2\<lparr>args := build_args (args s2)\<rparr>))
               \<lparr>world := w\<rparr>"
  let ?s' = "requeue dep_pkg cs (appendleft arg ?s3)"
  have r2: "recipes s2 = rest" "already_built s2 = already_built s"
    using materialize_frame[OF mat] load_metadata_frame[OF meta] by simp_all
  have "full_build E arg m s2 = rediscover E arg error_str ?s3"
    by (rule full_build_raises[OF fails])
  also have "\<dots> = Next ?s'"
    using rediscover_found[OF missing dep, of E ?s3 arg] found by simp
  finally have "loop_body E a0 (s\<lparr>recipes := rest\<rparr>) = Continue ?s'"
    using mat meta action_builds[OF mode] by (simp add: loop_body_def)
  then have "run_loop E (Suc n) s = run_loop E n ?s'"
    using q by simp
  moreover have "recipes ?s' = rev cs @ arg # rest" "already_built ?s' = already_built s"
    using r2 by (simp_all add: requeue_fields appendleft_def emit_def)
  moreover have "foldl (\<lambda>q c. c # q) (arg # rest) cs = rev cs @ arg # rest"
    by (induction cs arbitrary: arg rest rule: rev_induct) simp_all
  ultimately show ?thesis by metis
qed

text \<open>
  In the small world, \<open>A\<close> misses \<open>C\<close>, whose recipe directory exists: after the first
  pass over \<open>[A, B]\<close> the queue is \<open>[C, A, B]\<close>.
\<close>

theorem requeue_dependency_first_witness:
  "recipes (snd (run_loop (toy [(''A'', ''C'')] []) 1 (toy_loop (toy_args [''A'', ''B'']))))
   = [''C'', ''A'', ''B'']"
proof -
  let ?E = "toy [(''A'', ''C'')] []"
  let ?s = "toy_loop (toy_args [''A'', ''B''])"
  let ?s1 = "?s\<lparr>recipes := [''B'']\<rparr>"
  let ?err = "''No packages found in current linux-64 channels matching: C''"
  have q: "recipes ?s = ''A'' # [''B'']"
    by (simp add: toy_defs)
  have mat: "materialize ?E ''A'' ?s1 = Recipe_dir ''A'' ''A'' False ?s1"
    by (simp add: toy_defs materialize_def is_archive_def)
  have meta: "load_metadata ?E ''A'' ?s1 = Inr (''A'', ?s1)"
    by (simp add: toy_defs load_metadata_def is_archive_def)
  have mode: "builds ?E ''A'' ?s1"
    by (simp add: toy_defs builds_def)
  have fails: "build_build ?E (build_args (args ?s1)) (config ?s1) ''A'' (post_arg (args ?s1))
                 (world ?s1) = (Some (RuntimeError ?err), world ?s1)"
    by (simp add: toy_defs)
  have missing: "prefix ''No packages found'' ?err \<or> prefix ''Could not find some'' ?err"
    by simp
  have dep: "dep_pkg_of ?err = Inr ''C''"
    by (simp add: dep_pkg_of_def)
  have found: "recipe_glob_of ?E (world ?s1) ''C'' = [''C'']"
    by (simp add: toy_defs recipe_glob_of_def py_glob_def glob1_def fnmatch_def
        class_end_def class_of_def)
  obtain s' where "run_loop ?E (Suc 0) ?s = run_loop ?E 0 s'"
      and "recipes s' = rev [''C''] @ ''A'' # [''B'']"
    using requeue_dependency_first[OF q mat meta mode fails missing dep found, of 0]
    by auto
  then show ?thesis by simp
qed

section \<open>A missing dependency with no recipe\<close>



lemma emit_fields [simp]:
  "args (emit ev s) = args s" "config (emit ev s) = config s" "world (emit ev s) = world s"
  "recipes (emit ev s) = recipes s" "already_built (emit ev s) = already_built s"
  "index (emit ev s) = index s" "trace (emit ev s) = trace s @ [ev]"
  by (simp_all add: emit_def)


section \<open>A circular dependency\<close>





section \<open>What a pass adds to the trace\<close>

lemma adds_iff: "adds P s s' \<longleftrightarrow> (\<exists>evs. trace s' = trace s @ evs \<and> list_all P evs)"
  by (auto simp: adds_def new_events_def prefix_def)

lemma adds_refl [simp]: "adds P s s"
  by (simp add: adds_iff)

lemma adds_same_trace: "trace s' = trace s \<Longrightarrow> adds P s s'"
  by (simp add: adds_iff)

lemma adds_trans: "adds P s s1 \<Longrightarrow> adds P s1 s2 \<Longrightarrow> adds P s s2"
  by (auto simp: adds_iff)

lemma adds_mono: "adds Q s s' \<Longrightarrow> (\<And>ev. Q ev \<Longrightarrow> P ev) \<Longrightarrow> adds P s s'"
  by (auto simp: adds_iff list_all_iff)

lemma adds_events: "trace s' = trace s @ evs \<Longrightarrow> list_all P evs \<Longrightarrow> adds P s s'"
  by (auto simp: adds_iff)


lemma materialize_adds:
  assumes h: "\<And>ev. harmless ev \<Longrightarrow> P ev"
  shows "materialize E a s = Done r \<Longrightarrow> adds P s (state_of r)"
    and "materialize E a s = Recipe_dir arg d c s1 \<Longrightarrow> adds P s s1"
  by (auto simp: materialize_def Let_def adds_iff h
      split: sum.splits if_splits prod.splits option.splits)

lemma load_metadata_adds:
  assumes h: "\<And>ev. harmless ev \<Longrightarrow> P ev"
  shows "load_metadata E d s = Inl r \<Longrightarrow> adds P s (state_of r)"
    and "load_metadata E d s = Inr (m, s1) \<Longrightarrow> adds P s s1"
  by (auto simp: load_metadata_def Let_def adds_iff h
      split: sum.splits if_splits prod.splits option.splits exn.splits)

lemma requeue_adds:
  assumes h: "\<And>ev. harmless ev \<Longrightarrow> P ev"
  shows "adds P s (requeue d cs s)"
  by (rule adds_events[where evs = "map (Missing_dependency d) cs"])
     (simp_all add: requeue_fields list_all_iff h)

lemma rediscover_adds:
  assumes h: "\<And>ev. harmless ev \<Longrightarrow> P ev"
  shows "adds P s (acted_state (rediscover E arg err s))"
proof -
  have "adds P (appendleft arg s) (requeue d cs (appendleft arg s))" for d cs
    by (rule requeue_adds[OF h])
  then have "adds P s (requeue d cs (appendleft arg s))" for d cs
    by (simp add: adds_iff appendleft_def)
  then show ?thesis
    by (auto simp: rediscover_def Let_def requeue_def[symmetric] split: sum.splits)
qed

lemma run_test_adds:
  assumes h: "\<And>ev. harmless ev \<Longrightarrow> P ev"
  shows "run_test E m s = (r, s') \<Longrightarrow> adds P s s'"
  by (auto simp: run_test_def adds_iff h split: prod.splits)

lemma full_build_adds:
  assumes h: "\<And>ev. harmless ev \<Longrightarrow> P ev"
    and b: "P (Built (pkg_fn E (config s) m))"
  shows "adds P s (acted_state (full_build E arg m s))"
proof -
  let ?s1 = "emit (Built (pkg_fn E (config s) m)) (s\<lparr>args := build_args (args s)\<rparr>)"
  have 1: "adds P s (?s1\<lparr>world := w\<rparr>)" for w
    by (simp add: adds_iff b)
  have 2: "adds P s (acted_state (rediscover E arg err (?s1\<lparr>world := w\<rparr>)))" for err w
    by (rule adds_trans[OF 1 rediscover_adds[OF h]])
  have 3: "adds P s s'" if "run_test E m (?s1\<lparr>world := w\<rparr>) = (r, s')" for w r s'
    by (rule adds_trans[OF 1 run_test_adds[where P = P, OF h that]])
  show ?thesis
    using 1 2 3
    by (auto simp: full_build_def Let_def split: prod.splits option.splits exn.splits if_splits)
qed

lemma action_adds:
  assumes h: "\<And>ev. harmless ev \<Longrightarrow> P ev"
    and b: "builds E m s \<Longrightarrow> P (Built (pkg_fn E (config s) m))"
  shows "adds P s (acted_state (action E arg m s))"
proof (cases "builds E m s")
  case True
  then show ?thesis
    using full_build_adds[where P = P, OF h b[OF True]] by (simp add: action_builds)
next
  case False
  have t: "adds P s s'" if "run_test E m s = (r, s')" for r s'
    by (rule run_test_adds[where P = P, OF h that])
  from False t show ?thesis
    by (auto simp: action_def builds_def adds_iff h split: prod.splits option.splits)
qed


lemma handle_binstar_upload_adds:
  assumes h: "\<And>ev. harmless ev \<Longrightarrow> P ev"
  shows "handle_binstar_upload E p s = (r, s') \<Longrightarrow> adds P s s'"
  by (auto simp: handle_binstar_upload_def Let_def adds_iff h
      split: option.splits prod.splits if_splits)

lemma finish_adds:
  assumes h: "\<And>ev. harmless ev \<Longrightarrow> P ev"
    and rm: "c \<Longrightarrow> P (Removed d)"
  shows "adds P s (state_of (finish E d c u m s))"
proof -
  obtain r1 s1 where c1:
    "(if c then (case rmtree E d (world s) of
                   (r, w) \<Rightarrow> (r, (emit (Removed d) s)\<lparr>world := w\<rparr>))
      else (None, s)) = (r1, s1)"
    by fastforce
  have a1: "adds P s s1"
    using c1 rm by (auto simp: adds_iff split: if_splits prod.splits)
  obtain r2 s2 where c2:
    "(if u then handle_binstar_upload E (bldpkg_path E (config s1) m) s1
      else (None, s1)) = (r2, s2)"
    by fastforce
  have "adds P s1 s2"
    using c2 handle_binstar_upload_adds[where P = P, OF h]
    by (auto split: if_splits)
  with a1 have a2: "adds P s s2"
    by (rule adds_trans)
  then have a3: "adds P s (s2\<lparr>already_built := ab\<rparr>)" for ab
    by (simp add: adds_iff)
  show ?thesis
  proof (cases r1)
    case (Some e)
    have "finish E d c u m s = Raise e s1"
      unfolding finish_def c1 Some by simp
    with a1 show ?thesis by simp
  next
    case None
    have "finish E d c u m s
          = (case r2 of Some e \<Rightarrow> Raise e s2
             | None \<Rightarrow> Continue (s2\<lparr>already_built :=
                                       already_built s2 @ [pkg_fn E (config s2) m]\<rparr>))"
      unfolding finish_def c1 None by (simp add: c2)
    with a2 a3 show ?thesis by (simp split: option.splits)
  qed
qed

lemma loop_body_adds_gen:
  assumes h: "\<And>ev. harmless ev \<Longrightarrow> P ev"
    and b: "\<And>arg d c s1 m s2.
              materialize E a s = Recipe_dir arg d c s1 \<Longrightarrow> load_metadata E d s1 = Inr (m, s2)
              \<Longrightarrow> builds E m s2 \<Longrightarrow> P (Built (pkg_fn E (config s2) m))"
    and rm: "\<And>arg d s1. materialize E a s = Recipe_dir arg d True s1 \<Longrightarrow> P (Removed d)"
  shows "adds P s (state_of (loop_body E a s))"
proof (cases "materialize E a s")
  case (Done r)
  then show ?thesis
    using materialize_adds(1)[where P = P, OF h Done] by (simp add: loop_body_def)
next
  case (Recipe_dir arg d c s1)
  note a1 = materialize_adds(2)[where P = P, OF h Recipe_dir]
  show ?thesis
  proof (cases "load_metadata E d s1")
    case (Inl r)
    then show ?thesis
      using adds_trans[OF a1 load_metadata_adds(1)[where P = P, OF h Inl]] Recipe_dir
      by (simp add: loop_body_def)
  next
    case (Inr ms)
    obtain m s2 where ms: "ms = (m, s2)"
      by (cases ms)
    note meta = Inr[unfolded ms]
    have a2: "adds P s s2"
      by (rule adds_trans[OF a1 load_metadata_adds(2)[where P = P, OF h meta]])
    have "P (Built (pkg_fn E (config s2) m))" if "builds E m s2"
      using b[OF Recipe_dir meta that] .
    then have "adds P s2 (acted_state (action E arg m s2))"
      by (intro action_adds[where P = P, OF h])
    with a2 have a3: "adds P s (acted_state (action E arg m s2))"
      by (rule adds_trans)
    have "P (Removed d)" if c
      using rm[of arg d s1] Recipe_dir that by simp
    then have a4: "adds P s3 (state_of (finish E d c u m s3))" for u s3
      by (intro finish_adds[where P = P, OF h])
    show ?thesis
      using a3 adds_trans[OF _ a4] Recipe_dir meta
      by (cases "action E arg m s2") (simp_all add: loop_body_def)
  qed
qed



section \<open>What a pass leaves alone\<close>

lemma carried_refl [simp]: "carried s s"
  by (simp add: carried_def)



lemma carried_same:
  "args s' = args s \<Longrightarrow> config s' = config s \<Longrightarrow> index s' = index s
   \<Longrightarrow> already_built s' = already_built s \<Longrightarrow> carried s s'"
  by (simp add: carried_def)


lemma axes_fields: "axes c' = axes c \<Longrightarrow> config_get c' lang = config_get c lang"
  by (cases c; cases c'; cases lang; simp add: axes_def)















lemma finish_continue:
  "finish E d c u m s = Continue s'
   \<Longrightarrow> \<exists>s2. s' = s2\<lparr>already_built := already_built s2 @ [pkg_fn E (config s2) m]\<rparr>
            \<and> carried s s2 \<and> already_built s2 = already_built s \<and> config s2 = config s"
  by (auto simp: finish_def handle_binstar_upload_def Let_def emit_def carried_def
      split: prod.splits option.splits if_splits)

section \<open>The packages already built\<close>









section \<open>The temporary directory of an extracted recipe\<close>






lemma harmless_not_Built: "harmless ev \<Longrightarrow> \<not> is_Built ev"
  by (cases ev) simp_all

lemma adds_no_Built:
  "adds (\<lambda>ev. \<not> is_Built ev) s s' \<Longrightarrow> \<not> list_ex is_Built (new_events s s')"
  by (simp add: adds_def list_ex_iff list_all_iff)

lemma pass_without_build:
  assumes "\<And>arg d c s1 m s2.
             materialize E a s = Recipe_dir arg d c s1 \<Longrightarrow> load_metadata E d s1 = Inr (m, s2)
             \<Longrightarrow> \<not> builds E m s2"
  shows "\<not> list_ex is_Built (new_events s (state_of (loop_body E a s)))"
proof -
  have "adds (\<lambda>ev. \<not> is_Built ev) s (state_of (loop_body E a s))"
    by (rule loop_body_adds_gen) (use assms in \<open>auto dest: harmless_not_Built\<close>)
  then show ?thesis by (rule adds_no_Built)
qed

lemma action_no_build_completes:
  assumes "\<not> check (args s)" "\<not> output_flag (args s)" "test (args s) \<or> source (args s)"
    and "\<not> (skip_existing (args s)
            \<and> (pkg_fn E (config s) m \<in> set (index s)
                \<or> pkg_fn E (config s) m \<in> set (already_built s)))"
  shows "(\<exists>e s3. action E arg m s = Failed e s3)
         \<or> (\<exists>s3. action E arg m s = Completed False s3 \<and> carried s s3
                  \<and> already_built s3 = already_built s \<and> config s3 = config s)"
  using assms
  by (auto simp: action_def run_test_def carried_def split: prod.splits option.splits)

section \<open>Test-only and source-only runs\<close>

text \<open>
  C9. A task is processed in test-only or source-only mode (no check, no output path,
  not skipped) and its pass goes on without raising. Then the pass has appended the
  package to \<open>already_built\<close>, as a build does, and has made no build call. At any
  later point \<open>t\<close> of the same run (what \<open>already_built\<close> held after that pass is
  still a prefix), with \<open>skip_existing\<close> set, a task that resolves to the same package
  name is skipped: its pass prints the skip notice and goes on, with no build call.
\<close>

theorem test_and_source_only_mark_built:
  assumes mat: "materialize E a0 s = Recipe_dir arg d c s1"
    and meta: "load_metadata E d s1 = Inr (m, s2)"
    and mode: "\<not> check (args s)" "\<not> output_flag (args s)" "test (args s) \<or> source (args s)"
    and fresh: "\<not> (skip_existing (args s)
                   \<and> (pkg_fn E (config s2) m \<in> set (index s)
                       \<or> pkg_fn E (config s2) m \<in> set (already_built s)))"
    and ok: "loop_body E a0 s = Continue s'"
    and later: "prefix (already_built s') (already_built t)"
    and skip: "skip_existing (args t)" "\<not> check (args t)"
    and mat': "materialize E b0 t = Recipe_dir arg' d' c' t1"
    and meta': "load_metadata E d' t1 = Inr (m', t2)"
    and same: "pkg_fn E (config t2) m' = pkg_fn E (config s2) m"
  shows "already_built s' = already_built s @ [pkg_fn E (config s2) m]
         \<and> \<not> list_ex is_Built (new_events s s')
         \<and> loop_body E b0 t = Continue (emit (Skipped (dist E (config t2) m')) t2)
         \<and> \<not> list_ex is_Built (new_events t (state_of (loop_body E b0 t)))"
proof (intro conjI)
  note f1 = materialize_frame[OF mat] load_metadata_frame[OF meta]
  have nb: "\<not> builds E m s2"
    using mode f1 by (auto simp: builds_def)
  from action_no_build_completes[of s2 E m arg] mode fresh f1
  consider e s3 where "action E arg m s2 = Failed e s3"
    | s3 where "action E arg m s2 = Completed False s3" "already_built s3 = already_built s2"
        "config s3 = config s2"
    by auto
  then show built: "already_built s' = already_built s @ [pkg_fn E (config s2) m]"
  proof cases
    case 1
    with ok mat meta show ?thesis by (simp add: loop_body_def)
  next
    case 2
    with ok mat meta have "finish E d c False m s3 = Continue s'"
      by (simp add: loop_body_def)
    from finish_continue[OF this] 2 f1 show ?thesis by auto
  qed
  have "\<not> list_ex is_Built (new_events s (state_of (loop_body E a0 s)))"
  proof (rule pass_without_build)
    fix arg d c s1 m s2
    assume m1: "materialize E a0 s = Recipe_dir arg d c s1"
      and m2: "load_metadata E d s1 = Inr (m, s2)"
    show "\<not> builds E m s2"
      using mode materialize_frame[OF m1] load_metadata_frame[OF m2]
      by (auto simp: builds_def)
  qed
  then show "\<not> list_ex is_Built (new_events s s')"
    using ok by simp
  note f2 = materialize_frame[OF mat'] load_metadata_frame[OF meta']
  have "pkg_fn E (config s2) m \<in> set (already_built t)"
    using built later by (auto dest: set_mono_prefix)
  then have known: "pkg_fn E (config t2) m' \<in> set (already_built t2)"
    using same f2 by simp
  then have "action E arg' m' t2 = Next (emit (Skipped (dist E (config t2) m')) t2)"
    using skip f2 by (simp add: action_def)
  then show "loop_body E b0 t = Continue (emit (Skipped (dist E (config t2) m')) t2)"
    using mat' meta' by (simp add: loop_body_def)
  show "\<not> list_ex is_Built (new_events t (state_of (loop_body E b0 t)))"
  proof (rule pass_without_build)
    fix arg d c s1 m s2
    assume m1: "materialize E b0 t = Recipe_dir arg d c s1"
      and m2: "load_metadata E d s1 = Inr (m, s2)"
    with mat' meta' have "m = m'" "s2 = t2" by simp_all
    with known skip f2 show "\<not> builds E m s2"
      by (auto simp: builds_def)
  qed
qed

text \<open>
  Test-only with \<open>skip_existing\<close>: after the pass that tests \<open>A\<close>, the next pass on
  \<open>A\<close> skips it; \<open>A\<close> was never built.
\<close>

theorem test_and_source_only_mark_built_witness:
  "loop_body (toy [] []) ''A''
     (state_of (loop_body (toy [] []) ''A''
                  (toy_loop ((toy_args [])\<lparr>test := True, skip_existing := True\<rparr>))))
   = Continue
       ((toy_loop ((toy_args [])\<lparr>test := True, skip_existing := True\<rparr>))
          \<lparr>trace := [Tested ''A.tar.bz2'', Skipped ''A''],
            already_built := [''A.tar.bz2'']\<rparr>)"
proof -
  let ?E = "toy [] []"
  let ?s = "toy_loop ((toy_args [])\<lparr>test := True, skip_existing := True\<rparr>)"
  let ?t = "?s\<lparr>trace := [Tested ''A.tar.bz2''], already_built := [''A.tar.bz2'']\<rparr>"
  have mat: "materialize ?E ''A'' ?s = Recipe_dir ''A'' ''A'' False ?s"
    by (simp add: toy_defs materialize_def)
  have meta: "load_metadata ?E ''A'' ?s = Inr (''A'', ?s)"
    by (simp add: toy_defs load_metadata_def)
  have mode: "\<not> check (args ?s)" "\<not> output_flag (args ?s)" "test (args ?s) \<or> source (args ?s)"
    by (simp_all add: toy_defs)
  have fresh: "\<not> (skip_existing (args ?s)
                   \<and> (pkg_fn ?E (config ?s) ''A'' \<in> set (index ?s)
                       \<or> pkg_fn ?E (config ?s) ''A'' \<in> set (already_built ?s)))"
    by (simp add: toy_defs)
  have ok: "loop_body ?E ''A'' ?s = Continue ?t"
    by (simp add: toy_defs pass_defs)
  have later: "prefix (already_built ?t) (already_built ?t)"
    by simp
  have skip: "skip_existing (args ?t)" "\<not> check (args ?t)"
    by (simp_all add: toy_defs)
  have mat': "materialize ?E ''A'' ?t = Recipe_dir ''A'' ''A'' False ?t"
    by (simp add: toy_defs materialize_def)
  have meta': "load_metadata ?E ''A'' ?t = Inr (''A'', ?t)"
    by (simp add: toy_defs load_metadata_def)
  have same: "pkg_fn ?E (config ?t) ''A'' = pkg_fn ?E (config ?s) ''A''"
    by (simp add: toy_defs)
  have "loop_body ?E ''A'' ?t = Continue (emit (Skipped (dist ?E (config ?t) ''A'')) ?t)"
    by (rule test_and_source_only_mark_built
          [OF mat meta mode fresh ok later skip mat' meta' same,
            THEN conjunct2, THEN conjunct2, THEN conjunct1])
  then show ?thesis
    unfolding ok by (simp add: toy_defs emit_def)
qed


lemma split_char_first:
  "split [c] s = p # ps \<Longrightarrow> p = takeWhile (\<lambda>x. x \<noteq> c) s"
proof (induction s arbitrary: p ps)
  case Nil
  then show ?case by simp
next
  case (Cons a s)
  show ?case
  proof (cases "a = c")
    case True
    with Cons.prems show ?thesis by simp
  next
    case False
    obtain q qs where q: "split [c] s = q # qs"
      using split_nonempty[of "[c]" s] by (cases "split [c] s") auto
    with Cons.IH[OF q] Cons.prems False show ?thesis by auto
  qed
qed

lemma dep_pkg_of_field:
  assumes "split '': '' error_str = x # field # others"
  shows "dep_pkg_of error_str = Inr (takeWhile (\<lambda>c. c \<noteq> CHR '' '') field)"
proof (cases "CHR '' '' \<in> set field")
  case True
  obtain tok toks where t: "split '' '' field = tok # toks"
    using split_nonempty[of "'' ''" field] by (cases "split '' '' field") auto
  from split_char_first[OF t] assms True t show ?thesis
    by (simp add: dep_pkg_of_def)
next
  case False
  then have tw: "takeWhile (\<lambda>c. c \<noteq> CHR '' '') field = field"
    by (induction field) auto
  have "dep_pkg_of error_str = Inr field"
    using assms False by (simp add: dep_pkg_of_def)
  then show ?thesis
    unfolding tw .
qed

lemma translate_plain:
  "plain dep \<Longrightarrow> translate (dep @ rest) = map Lit dep @ translate rest"
  by (induction dep) (auto simp: plain_def)

lemma translate_suffix:
  "translate ''-[v0-9][0-9.]*''
   = [Lit CHR ''-'', Class False [One CHR ''v'', Span CHR ''0'' CHR ''9''],
      Class False [Span CHR ''0'' CHR ''9'', One CHR ''.''], Star]"
  by (simp add: class_end_def class_of_def)

lemma pmatch_lits:
  "pmatch (map Lit dep @ ps) name = (prefix dep name \<and> pmatch ps (drop (length dep) name))"
proof (induction dep arbitrary: name)
  case Nil
  then show ?case by simp
next
  case (Cons a dep)
  then show ?case by (cases name) auto
qed

lemma pmatch_star [simp]: "pmatch [Star] s"
  by (induction s) simp_all

lemma fnmatch_versioned:
  assumes "plain dep"
  shows "fnmatch name (dep @ ''-[v0-9][0-9.]*'') = versioned dep name"
proof -
  let ?r = "drop (length dep) name"
  have "fnmatch name (dep @ ''-[v0-9][0-9.]*'')
        = (prefix dep name \<and> pmatch (translate ''-[v0-9][0-9.]*'') ?r)"
    by (simp add: fnmatch_def translate_plain[OF assms] pmatch_lits)
  also have "\<dots> = versioned dep name"
  proof (cases "prefix dep name")
    case False
    then show ?thesis
      by (auto simp: versioned_def dest: append_prefixD)
  next
    case True
    then obtain r where r: "name = dep @ r"
      by (auto simp: prefix_def)
    show ?thesis
      unfolding translate_suffix versioned_def r
      by (cases r rule: parse_items.cases) (auto simp: is_digit_def)
  qed
  finally show ?thesis .
qed


lemma versioned_not_hidden:
  assumes "versioned dep name" and "take 1 (dep @ ''-[v0-9][0-9.]*'') \<noteq> ''.''"
  shows "take 1 name \<noteq> ''.''"
proof -
  from assms(1) obtain r where "name = (dep @ ''-'') @ r"
    by (auto simp: versioned_def prefix_def)
  with assms(2) show ?thesis
    by (cases dep) auto
qed

lemma glob1_versioned:
  assumes "plain dep"
  shows "glob1 names (dep @ ''-[v0-9][0-9.]*'') = filter (versioned dep) names"
proof (cases "take 1 (dep @ ''-[v0-9][0-9.]*'') = ''.''")
  case True
  then show ?thesis
    by (simp add: glob1_def fnmatch_versioned[OF assms])
next
  case False
  have "filter (versioned dep) (filter (\<lambda>name. take 1 name \<noteq> ''.'') names)
        = filter (versioned dep) names"
    using versioned_not_hidden[OF _ False] by (auto intro: filter_cong)
  with False show ?thesis
    by (simp add: glob1_def fnmatch_versioned[OF assms])
qed

section \<open>The search for a recipe of the missing package\<close>

text \<open>
  C7, as the code has it. The name searched for is the piece of the error text after
  its first \<open>': '\<close>, cut at its first blank. For a name with no pattern character,
  the recipes found are the entries of the working directory that \<open>glob\<close> matches
  against \<open><name>-[v0-9][0-9.]*\<close>, in the order of the listing (the name, a dash,
  one character out of \<open>v\<close> and the digits, one character out of the digits and the
  dot, then any text), followed by the name itself when an entry of that name exists.
\<close>

theorem rediscovery_search:
  "(split '': '' error_str = x # field # others
      \<longrightarrow> dep_pkg_of error_str = Inr (takeWhile (\<lambda>c. c \<noteq> CHR '' '') field))
   \<and> (plain dep_pkg
      \<longrightarrow> recipe_glob_of E w dep_pkg
          = filter (versioned dep_pkg) (listdir E w)
            @ (if exists E w dep_pkg then [dep_pkg] else []))"
proof (intro conjI impI)
  assume "split '': '' error_str = x # field # others"
  then show "dep_pkg_of error_str = Inr (takeWhile (\<lambda>c. c \<noteq> CHR '' '') field)"
    by (rule dep_pkg_of_field)
next
  assume p: "plain dep_pkg"
  then have "CHR ''/'' \<notin> set (dep_pkg @ ''-[v0-9][0-9.]*'')"
    by (auto simp: plain_def list_all_iff)
  then show "recipe_glob_of E w dep_pkg
             = filter (versioned dep_pkg) (listdir E w)
               @ (if exists E w dep_pkg then [dep_pkg] else [])"
    using glob1_versioned[OF p] by (simp add: recipe_glob_of_def py_glob_def)
qed

text \<open>
  The error names \<open>D 1.0*\<close>: the search is for \<open>D\<close> and finds the directory
  \<open>D-1.0\<close>; the search for \<open>C\<close> finds the directory \<open>C\<close>.
\<close>

theorem rediscovery_search_witness:
  "dep_pkg_of ''No packages found in current linux-64 channels matching: D 1.0*'' = Inr ''D''
   \<and> recipe_glob_of (toy [] []) \<lparr>built = [], temp = None\<rparr> ''D'' = [''D-1.0'']
   \<and> recipe_glob_of (toy [] []) \<lparr>built = [], temp = None\<rparr> ''C'' = [''C'']"
proof -
  let ?err = "''No packages found in current linux-64 channels matching: D 1.0*''"
  have s: "split '': '' ?err
           = [''No packages found in current linux-64 channels matching'', ''D 1.0*'']"
    by simp
  have p: "plain ''D''" "plain ''C''"
    by (simp_all add: plain_def)
  note t = rediscovery_search[of ?err _ "''D 1.0*''" "[]" _ "toy [] []" "\<lparr>built = [], temp = None\<rparr>"]
  have 1: "dep_pkg_of ?err = Inr ''D''"
    using t[THEN conjunct1] s by simp
  have 2: "recipe_glob_of (toy [] []) \<lparr>built = [], temp = None\<rparr> ''D'' = [''D-1.0'']"
    using rediscovery_search[of ?err _ "''D 1.0*''" "[]" "''D''" "toy [] []" "\<lparr>built = [], temp = None\<rparr>", THEN conjunct2] p
    by (simp add: toy_defs versioned_def is_digit_def)
  have 3: "recipe_glob_of (toy [] []) \<lparr>built = [], temp = None\<rparr> ''C'' = [''C'']"
    using rediscovery_search[of ?err _ "''D 1.0*''" "[]" "''C''" "toy [] []" "\<lparr>built = [], temp = None\<rparr>", THEN conjunct2] p
    by (simp add: toy_defs versioned_def is_digit_def)
  from 1 2 3 show ?thesis by simp
qed

text \<open>
  The pattern of the code is a shell pattern, not the expression of the specification:
  \<open>foo-1\<close> fits the expression and is not found (the pattern wants two characters
  after the dash); \<open>foo-v.x\<close> is found and does not fit the expression, nor the
  expression read as a shell pattern.
\<close>

theorem rediscovery_pattern_counterexample:
  "spec_pattern ''foo'' ''foo-1''
   \<and> ''foo-1'' \<notin> set (recipe_glob_of (shelf [''foo-1'', ''foo-v.x'']) \<lparr>built = [], temp = None\<rparr> ''foo'')
   \<and> \<not> spec_pattern ''foo'' ''foo-v.x''
   \<and> \<not> fnmatch ''foo-v.x'' ''foo-v?[0-9][0-9.]*''
   \<and> ''foo-v.x'' \<in> set (recipe_glob_of (shelf [''foo-1'', ''foo-v.x'']) \<lparr>built = [], temp = None\<rparr> ''foo'')"
  by (simp add: spec_pattern_def is_digit_def shelf_def toy_defs recipe_glob_of_def py_glob_def
      glob1_def fnmatch_def class_end_def class_of_def)


section \<open>An axis that is refused\<close>

lemma weight_le: "weight a \<le> 8"
  by (simp add: weight_def langs_def need_def)

lemma str_known:
  "str_int 26 = ''26''" "str_int 27 = ''27''" "str_int 33 = ''33''" "str_int 34 = ''34''"
  "str_int 16 = ''16''" "str_int 17 = ''17''" "str_int 18 = ''18''" "str_int 19 = ''19''"
  by (simp_all add: str_int_def str_nat.simps)

lemma known_not_all: "all_versions lang = Some vs \<Longrightarrow> ''all'' \<notin> set (map str_int vs)"
  by (cases lang) (auto simp: str_known)

lemma getattr_setattr [simp]:
  "getattr (setattr l vs a) l' = (if l' = l then vs else getattr a l')"
  by (cases l; cases l'; simp)

lemma setattr_fields [simp]:
  "recipe (setattr l vs a) = recipe a" "skip_existing (setattr l vs a) = skip_existing a"
  by (cases l; simp)+

lemma weight_setattr:
  assumes "need l [v] < need l (getattr a l)"
  shows "weight (setattr l [v] a) < weight a"
  using assms by (cases l) (simp_all add: weight_def langs_def)

lemma expand_all_cases:
  assumes "versions \<noteq> []"
  obtains (error) e where "expand_all l versions = Inl e"
  | (known) vs where "versions = [''all'']" "all_versions l = Some vs"
      "expand_all l versions = Inr (map str_int vs)" "length vs > 1"
  | (given) "versions \<noteq> [''all'']" "expand_all l versions = Inr versions"
proof (cases "versions = [''all'']")
  case True
  then show ?thesis
    using error known by (cases l) (simp_all add: expand_all_def)
next
  case False
  then show ?thesis
    using given by (simp add: expand_all_def)
qed

lemma for_ver_not_returned:
  assumes "fst (exec (s\<lparr>args := setattr lang [ver] (args s)\<rparr>)) \<noteq> Returned"
  shows "for_ver exec lang versions (ver # rest) s = exec (s\<lparr>args := setattr lang [ver] (args s)\<rparr>)"
  using assms
  by (cases "exec (s\<lparr>args := setattr lang [ver] (args s)\<rparr>)") (auto split: outcome.splits)

lemma startup_frame:
  "startup E s = (r, s1) \<Longrightarrow> args s1 = args s \<and> trace s1 = trace s \<and> config s1 = config s"
  by (auto simp: startup_def split: option.splits if_splits prod.splits)

lemma for_lang_rejected:
  assumes IH: "\<And>s'. rejected lang (getattr (args s') lang) \<Longrightarrow>
                 aborts k (weight (args s')) s' (exec s')"
    and "lang \<in> set ls"
    and "rejected lang (getattr (args s) lang)"
  shows "aborts (Suc k) (weight (args s)) s (for_lang E exec n ls s)"
  using assms(2,3)
proof (induction ls arbitrary: s)
  case Nil
  then show ?case by simp
next
  case (Cons l ls)
  show ?case
  proof (cases "getattr (args s) l")
    case Nil
    with Cons.prems have "l \<noteq> lang"
      by (auto simp: rejected_def)
    with Cons Nil show ?thesis by simp
  next
    case (Cons v0 vs0)
    then have ne: "getattr (args s) l \<noteq> []" by simp
    from ne show ?thesis
    proof (cases rule: expand_all_cases[where l = l])
      case (error e)
      with Cons show ?thesis by (simp add: aborts_def)
    next
      case (known vs)
      then have "l \<noteq> lang"
        using Cons.prems(2) by (auto simp: rejected_def)
      obtain w ws where vs: "vs = w # ws"
        using known(4) by (cases vs) auto
      let ?s' = "s\<lparr>args := setattr l [str_int w] (args s)\<rparr>"
      have "str_int w \<noteq> ''all''"
        using known_not_all[OF known(2)] vs by auto
      then have "need l [str_int w] < need l (getattr (args s) l)"
        using known by (simp add: need_def)
      then have lt: "weight (args ?s') < weight (args s)"
        using weight_setattr[of l "str_int w" "args s"] by simp
      have "rejected lang (getattr (args ?s') lang)"
        using \<open>l \<noteq> lang\<close> Cons.prems(2) by simp
      from IH[OF this] have ab: "aborts k (weight (args ?s')) ?s' (exec ?s')" .
      then have "for_lang E exec n (l # ls) s = exec ?s'"
        using Cons known vs for_ver_not_returned[where exec = exec and s = s and lang = l and ver = "str_int w"]
        by (simp add: aborts_def)
      with ab lt show ?thesis
        by (auto simp: aborts_def)
    next
      case given
      show ?thesis
      proof (cases "length (getattr (args s) l) > 1")
        case True
        then have "l \<noteq> lang"
          using Cons.prems(2) by (auto simp: rejected_def split: list.splits)
        let ?s' = "s\<lparr>args := setattr l [v0] (args s)\<rparr>"
        have "need l [v0] < need l (getattr (args s) l)"
          using True by (simp add: need_def)
        then have lt: "weight (args ?s') < weight (args s)"
          using weight_setattr[of l v0 "args s"] by simp
        have "rejected lang (getattr (args ?s') lang)"
          using \<open>l \<noteq> lang\<close> Cons.prems(2) by simp
        from IH[OF this] have ab: "aborts k (weight (args ?s')) ?s' (exec ?s')" .
        then have "for_lang E exec n (l # ls) s = exec ?s'"
          using Cons given True for_ver_not_returned[where exec = exec and s = s and lang = l and ver = v0]
          by (simp add: aborts_def)
        with ab lt show ?thesis
          by (auto simp: aborts_def)
      next
        case False
        with Cons have single: "getattr (args s) l = [v0]" by simp
        show ?thesis
        proof (cases "py_int (remove_dots v0)")
          case None
          with Cons given single show ?thesis by (simp add: aborts_def)
        next
          case (Some version)
          let ?s1 = "s\<lparr>config := config_set l version (config s)\<rparr>"
          show ?thesis
          proof (cases "length (str_int version) \<noteq> 2 \<and> l \<in> set [Python, Numpy]")
            case True
            with Cons given single Some show ?thesis by (simp add: aborts_def)
          next
            case False
            have "l \<noteq> lang"
              using False Some single given Cons.prems(2) by (auto simp: rejected_def)
            then have "aborts (Suc k) (weight (args ?s1)) ?s1 (for_lang E exec n ls ?s1)"
              using Cons.prems by (intro Cons.IH) auto
            moreover have "for_lang E exec n (l # ls) s = for_lang E exec n ls ?s1"
              using Cons given single Some False by (auto simp: Let_def)
            ultimately show ?thesis by (simp add: aborts_def)
          qed
        qed
      qed
    qed
  qed
qed

lemma rejected_aborts:
  "rejected lang (getattr (args s) lang) \<Longrightarrow> aborts k (weight (args s)) s (execute E k s)"
proof (induction k arbitrary: s)
  case 0
  then show ?case by (simp add: aborts_def)
next
  case (Suc k)
  obtain r s1 where st: "startup E s = (r, s1)"
    by fastforce
  note f = startup_frame[OF st]
  show ?case
  proof (cases r)
    case (Some e)
    with st f show ?thesis by (simp add: execute_body_def aborts_def)
  next
    case None
    have "aborts (Suc k) (weight (args s1)) s1 (for_lang E (execute E k) k langs s1)"
      by (rule for_lang_rejected[where lang = lang])
         (use Suc f in \<open>auto simp: langs_def intro: lang.exhaust\<close>)
    with None st f show ?thesis by (simp add: execute_body_def aborts_def)
  qed
qed


lemma for_lang_unset:
  "getattr (args s) l = [] \<Longrightarrow> for_lang E exec n (l # ls) s = for_lang E exec n ls s"
  by simp

lemma for_lang_single:
  assumes "getattr (args s) l = [v]" "v \<noteq> ''all''"
  shows "for_lang E exec n (l # ls) s
         = (case py_int (remove_dots v) of
              None \<Rightarrow> (Raised (ValueError (remove_dots v)), s)
            | Some version \<Rightarrow>
                if length (str_int version) \<noteq> 2 \<and> l \<in> set [Python, Numpy]
                then (Raised (RuntimeError (width_message l version)),
                      s\<lparr>config := config_set l version (config s)\<rparr>)
                else for_lang E exec n ls (s\<lparr>config := config_set l version (config s)\<rparr>))"
  using assms by (simp add: expand_all_def Let_def split: option.splits)

section \<open>The width of a Python or NumPy version\<close>

text \<open>
  C4, as the code has it. The width is checked when the axis holds one value, in the
  call of \<open>execute\<close> that then goes on to schedule. If the Python or the NumPy axis
  holds exactly one value, not \<open>'all'\<close>, whose text without dots \<open>int\<close> does not
  read, or reads as an integer that \<open>str\<close> does not write in two characters, then
  that call of \<open>execute\<close>, whatever the other axes hold, never returns normally and
  adds nothing to the trace: no index, no lock, no task. With fuel for the nesting it
  raises; when nothing before the axis fails, what it raises is the RuntimeError of the
  width check.
\<close>

theorem bad_width_aborts_before_scheduling:
  assumes two: "lang \<in> set [Python, Numpy]"
    and one: "getattr (args s) lang = [v]" "v \<noteq> ''all''"
    and enc: "\<forall>version. py_int (remove_dots v) = Some version \<longrightarrow> length (str_int version) \<noteq> 2"
  shows "fst (execute E k s) \<noteq> Returned
         \<and> trace (snd (execute E k s)) = trace s
         \<and> (8 < k \<longrightarrow> (\<exists>e. fst (execute E k s) = Raised e))
         \<and> (py_int (remove_dots v) = Some version \<and> startup E s = (None, s1)
              \<and> (lang = Numpy \<longrightarrow> python (args s) = [])
            \<longrightarrow> execute E (Suc k) s
                = (Raised (RuntimeError (width_message lang version)),
                   s1\<lparr>config := config_set lang version (config s1)\<rparr>))"
proof -
  have "rejected lang (getattr (args s) lang)"
    using two one enc by (auto simp: rejected_def split: option.splits)
  from rejected_aborts[OF this, of k E] weight_le[of "args s"]
  have 1: "fst (execute E k s) \<noteq> Returned \<and> trace (snd (execute E k s)) = trace s
           \<and> (8 < k \<longrightarrow> (\<exists>e. fst (execute E k s) = Raised e))"
    by (auto simp: aborts_def)
  have 2: "execute E (Suc k) s
           = (Raised (RuntimeError (width_message lang version)),
              s1\<lparr>config := config_set lang version (config s1)\<rparr>)"
    if p: "py_int (remove_dots v) = Some version" and st: "startup E s = (None, s1)"
      and py: "lang = Numpy \<longrightarrow> python (args s) = []"
  proof -
    note f = startup_frame[OF st]
    have w: "length (str_int version) \<noteq> 2"
      using enc p by simp
    from two consider "lang = Python" | "lang = Numpy" by auto
    then have "for_lang E (execute E k) k langs s1
               = (Raised (RuntimeError (width_message lang version)),
                  s1\<lparr>config := config_set lang version (config s1)\<rparr>)"
    proof cases
      case 1
      then show ?thesis
        using one f p w
        by (simp add: langs_def for_lang_single[where v = v] del: for_lang.simps)
    next
      case 2
      then have "getattr (args s1) Python = []" "getattr (args s1) Numpy = [v]"
        using py one f by simp_all
      then show ?thesis
        using 2 one p w
        by (simp add: langs_def for_lang_unset for_lang_single[where v = v]
            del: for_lang.simps)
    qed
    then show ?thesis
      using st by (simp add: execute_body_def)
  qed
  from 1 2 show ?thesis by blast
qed

text \<open>\<open>--python 3.10\<close>: the run raises the width error with an empty trace.\<close>

theorem bad_width_aborts_before_scheduling_witness:
  "execute (toy [] []) 9 (toy_state ((toy_args [''A''])\<lparr>python := [''3.10'']\<rparr>))
   = (Raised (RuntimeError ''CONDA_PY must be major.minor, like 3.4, not 310''),
      (toy_state ((toy_args [''A''])\<lparr>python := [''3.10'']\<rparr>))
        \<lparr>config := toy_config\<lparr>CONDA_PY := Some 310\<rparr>\<rparr>)"
proof -
  let ?E = "toy [] []"
  let ?s = "toy_state ((toy_args [''A''])\<lparr>python := [''3.10'']\<rparr>)"
  have two: "Python \<in> set [Python, Numpy]"
    by simp
  have one: "getattr (args ?s) Python = [''3.10'']" "''3.10'' \<noteq> ''all''"
    by (simp_all add: toy_defs)
  have p: "py_int (remove_dots ''3.10'') = Some 310"
    by (simp add: py_int_def remove_dots_def strip_def is_space_def parse_digits_def
        is_digit_def digit_val_def)
  have w: "length (str_int 310) \<noteq> 2"
    by (simp add: str_int_def str_nat.simps)
  have enc: "\<forall>version. py_int (remove_dots ''3.10'') = Some version
               \<longrightarrow> length (str_int version) \<noteq> 2"
    using p w by simp
  have st: "startup ?E ?s = (None, ?s)"
    by (simp add: startup_def check_external_def toy_defs)
  have nine: "(9 :: nat) = Suc 8"
    by simp
  have "execute ?E (Suc 8) ?s
        = (Raised (RuntimeError (width_message Python 310)),
           ?s\<lparr>config := config_set Python 310 (config ?s)\<rparr>)"
    using bad_width_aborts_before_scheduling[OF two one enc, of ?E 8 310 ?s] p st
    by simp
  then show ?thesis
    unfolding nine
    by (simp add: width_message_def str_int_def str_nat.simps toy_defs)
qed

text \<open>
  \<open>--python 2.7 --python 3.10\<close> on the recipe \<open>A\<close>: the run for 2.7 builds and tests
  \<open>A\<close> under the lock, and only then the run for 3.10 raises the width error.
\<close>

theorem late_width_error_counterexample:
  "py_int (remove_dots ''3.10'') = Some 310
   \<and> length (str_int 310) \<noteq> 2
   \<and> fst (execute (toy [] []) 9
            (toy_state ((toy_args [''A''])\<lparr>python := [''2.7'', ''3.10'']\<rparr>)))
     = Raised (RuntimeError ''CONDA_PY must be major.minor, like 3.4, not 310'')
   \<and> trace (snd (execute (toy [] []) 9
                    (toy_state ((toy_args [''A''])\<lparr>python := [''2.7'', ''3.10'']\<rparr>))))
     = [Locked (toy_config\<lparr>CONDA_PY := Some 27\<rparr>), Built ''A.tar.bz2'',
        Tested ''A.tar.bz2'', Upload_offered ''/bld/A.tar.bz2'', Unlocked]"
  by code_simp


lemma run_loop_empty: "recipes s = [] \<Longrightarrow> run_loop E n s = (Returned, s)"
  by (cases n) simp_all

lemma args_func_ValueError:
  "execute E k s = (Raised (ValueError x), s')
   \<Longrightarrow> args_func E k s = (Raised (ValueError x), emit Issue_message s')"
  by (simp add: args_func_def print_issue_message_def)

section \<open>The Perl and R axes\<close>

text \<open>
  C10. The Perl or the R axis holds one value, not \<open>'all'\<close>, and no axis before it is
  set. If \<open>int\<close> reads the value without its dots, the value is accepted, however
  many digits it has: it is written to \<open>config\<close> and \<open>execute\<close> goes on with the
  axes after it. If \<open>int\<close> does not read it, \<open>execute\<close> raises ValueError, not the
  RuntimeError of the width check, and \<open>args_func\<close> raises it again after the request
  to report the error, where a RuntimeError would have become an \<open>Error: ...\<close> exit.
\<close>

theorem perl_and_R_accept_any_width:
  assumes axis: "lang \<in> set [Perl, Rlang]"
    and one: "getattr (args s) lang = [v]" "v \<noteq> ''all''"
    and first: "python (args s) = []" "numpy (args s) = []" "lang = Rlang \<longrightarrow> perl (args s) = []"
    and st: "startup E s = (None, s1)"
  shows "(py_int (remove_dots v) = Some version
            \<longrightarrow> execute E (Suc k) s
                = for_lang E (execute E k) k (after lang)
                    (s1\<lparr>config := config_set lang version (config s1)\<rparr>))
         \<and> (py_int (remove_dots v) = None
            \<longrightarrow> execute E (Suc k) s = (Raised (ValueError (remove_dots v)), s1)
                \<and> args_func E (Suc k) s
                  = (Raised (ValueError (remove_dots v)), emit Issue_message s1))"
proof -
  note f = startup_frame[OF st]
  have ex: "execute E (Suc k) s = for_lang E (execute E k) k langs s1"
    using st by (simp add: execute_body_def)
  from axis consider "lang = Perl" | "lang = Rlang" by auto
  then have step: "for_lang E (execute E k) k langs s1
        = (case py_int (remove_dots v) of
             None \<Rightarrow> (Raised (ValueError (remove_dots v)), s1)
           | Some version \<Rightarrow>
               for_lang E (execute E k) k (after lang)
                 (s1\<lparr>config := config_set lang version (config s1)\<rparr>))"
  proof cases
    case 1
    then have "getattr (args s1) Python = []" "getattr (args s1) Numpy = []"
        "getattr (args s1) Perl = [v]"
      using first one f by simp_all
    then show ?thesis
      using 1 one
      by (simp add: langs_def after_def for_lang_unset for_lang_single[where v = v]
          del: for_lang.simps split: option.splits)
  next
    case 2
    then have "getattr (args s1) Python = []" "getattr (args s1) Numpy = []"
        "getattr (args s1) Perl = []" "getattr (args s1) Rlang = [v]"
      using first one f by simp_all
    then show ?thesis
      using 2 one
      by (simp add: langs_def after_def for_lang_unset for_lang_single[where v = v]
          del: for_lang.simps split: option.splits)
  qed
  show ?thesis
  proof (intro conjI impI)
    assume "py_int (remove_dots v) = Some version"
    then show "execute E (Suc k) s
               = for_lang E (execute E k) k (after lang)
                   (s1\<lparr>config := config_set lang version (config s1)\<rparr>)"
      using ex step by simp
  next
    assume "py_int (remove_dots v) = None"
    then show e: "execute E (Suc k) s = (Raised (ValueError (remove_dots v)), s1)"
      using ex step by simp
    then show "args_func E (Suc k) s
               = (Raised (ValueError (remove_dots v)), emit Issue_message s1)"
      by (rule args_func_ValueError)
  qed
qed

text \<open>
  \<open>--perl 5.18.2\<close> is accepted with four digits, and the run schedules under
  \<open>CONDA_PERL = 5182\<close>; \<open>--R 3.x\<close> ends in a ValueError.
\<close>

theorem perl_and_R_accept_any_width_witness:
  "execute (toy [] []) 3 (toy_state ((toy_args [])\<lparr>perl := [''5.18.2'']\<rparr>))
   = (Returned,
      (toy_state ((toy_args [])\<lparr>perl := [''5.18.2'']\<rparr>))
        \<lparr>config := toy_config\<lparr>CONDA_PERL := Some 5182\<rparr>,
          trace := [Locked (toy_config\<lparr>CONDA_PERL := Some 5182\<rparr>), Unlocked]\<rparr>)
   \<and> args_func (toy [] []) 3 (toy_state ((toy_args [''A''])\<lparr>R := [''3.x'']\<rparr>))
     = (Raised (ValueError ''3x''),
        (toy_state ((toy_args [''A''])\<lparr>R := [''3.x'']\<rparr>))\<lparr>trace := [Issue_message]\<rparr>)"
proof -
  let ?E = "toy [] []"
  let ?s = "toy_state ((toy_args [])\<lparr>perl := [''5.18.2'']\<rparr>)"
  let ?t = "toy_state ((toy_args [''A''])\<lparr>R := [''3.x'']\<rparr>)"
  have three: "(3 :: nat) = Suc 2"
    by simp
  have p: "py_int (remove_dots ''5.18.2'') = Some 5182"
    by (simp add: py_int_def remove_dots_def strip_def is_space_def parse_digits_def
        is_digit_def digit_val_def)
  have q: "py_int (remove_dots ''3.x'') = None"
    by (simp add: py_int_def remove_dots_def strip_def is_space_def parse_digits_def
        is_digit_def digit_val_def)
  have st: "startup ?E ?s = (None, ?s)" "startup ?E ?t = (None, ?t)"
    by (simp_all add: startup_def check_external_def toy_defs)
  have "execute ?E (Suc 2) ?s
        = for_lang ?E (execute ?E 2) 2 (after Perl)
            (?s\<lparr>config := config_set Perl 5182 (config ?s)\<rparr>)"
    using perl_and_R_accept_any_width[of Perl ?s "''5.18.2''" ?E ?s 5182 2] p st
    by (simp add: toy_defs)
  also have "\<dots> = (Returned,
      ?s\<lparr>config := toy_config\<lparr>CONDA_PERL := Some 5182\<rparr>,
          trace := [Locked (toy_config\<lparr>CONDA_PERL := Some 5182\<rparr>), Unlocked]\<rparr>)"
    by (simp add: after_def langs_def toy_defs schedule_def read_index_def emit_def
        run_loop_empty)
  finally have 1: "execute ?E 3 ?s = (Returned,
      ?s\<lparr>config := toy_config\<lparr>CONDA_PERL := Some 5182\<rparr>,
          trace := [Locked (toy_config\<lparr>CONDA_PERL := Some 5182\<rparr>), Unlocked]\<rparr>)"
    unfolding three .
  have "args_func ?E (Suc 2) ?t = (Raised (ValueError (remove_dots ''3.x'')), emit Issue_message ?t)"
    using perl_and_R_accept_any_width[of Rlang ?t "''3.x''" ?E ?t _ 2] q st
    by (simp add: toy_defs)
  then have 2: "args_func ?E 3 ?t = (Raised (ValueError ''3x''), ?t\<lparr>trace := [Issue_message]\<rparr>)"
    unfolding three by (simp add: remove_dots_def emit_def toy_defs)
  from 1 2 show ?thesis by simp
qed


end
